theory Spec2Isabelle
  imports Complex_Main
begin

section \<open>Data model (types.ts)\<close>

text \<open>
  JavaScript numbers are modelled as mathematical reals (rounding of IEEE doubles is not
  modelled); the millisecond clock \<^verbatim>\<open>Date.now()\<close> is an integer and is passed to every
  operation that reads it. The identifier drawn by
  \<^verbatim>\<open>Math.random().toString(36).slice(2, 11)\<close> is passed in as a string as well.
\<close>

datatype GestureType =
    open_palm | closed_fist | thumbs_up | thumbs_down | swipe_left | swipe_right
  | push_forward | pinch | pinch_rotate | two_finger_spread | two_finger_pinch
  | gesture_combo

datatype Handedness = Left | Right

record HandLandmark =
  lm_x :: real
  lm_y :: real
  lm_z :: real

record Vec2 =
  vx :: real
  vy :: real

record HandTrackingResult =
  landmarks :: "HandLandmark list"
  handedness :: Handedness
  r_confidence :: real
  timestamp :: int

record GestureEvent =
  ev_id :: "string option"
  ev_type :: GestureType
  ev_confidence :: real
  normalizedPosition :: Vec2
  ev_handedness :: Handedness
  ev_timestamp :: int
  ev_data :: "real option"

section \<open>InputAbstractionLayer\<close>

record GestureState =
  lastGesture :: "GestureType option"
  gestureStartTime :: int
  gestureId :: "string option"
  confidence :: real
  position :: Vec2
  velocity :: Vec2
  previousPosition :: Vec2

record InputAbstractionLayer =
  gestureStates :: "Handedness \<rightharpoonup> GestureState"
  smoothingFactor :: real
  confidenceThreshold :: real
  gestureHoldTime :: int

text \<open>The field initialisers of the class: smoothing 0.6, threshold 0.8, hold time 150 ms.\<close>

definition newInputAbstractionLayer :: InputAbstractionLayer where
  "newInputAbstractionLayer =
     \<lparr>gestureStates = Map.empty, smoothingFactor = 0.6, confidenceThreshold = 0.8,
      gestureHoldTime = 150\<rparr>"

text \<open>The state object created on the first sighting of a hand key.\<close>

definition initialGestureState :: GestureState where
  "initialGestureState =
     \<lparr>lastGesture = None, gestureStartTime = 0, gestureId = None, confidence = 0,
      position = \<lparr>vx = 0, vy = 0\<rparr>, velocity = \<lparr>vx = 0, vy = 0\<rparr>,
      previousPosition = \<lparr>vx = 0, vy = 0\<rparr>\<rparr>"

subsection \<open>detectGesture\<close>

text \<open>What \<^verbatim>\<open>detectGesture\<close> returns when it does not return null: type, confidence, data.\<close>

datatype Detected = Detected (d_type: GestureType) (d_confidence: real) (d_data: "real option")

definition fingerTips :: "nat list" where
  "fingerTips = [4, 8, 12, 16, 20]"

definition fingerPips :: "nat list" where
  "fingerPips = [3, 6, 10, 14, 18]"

text \<open>
  \<^verbatim>\<open>fingerTips.map((tipIdx, i) => ...)\<close>: the thumb (index 0) is extended when its tip lies
  to the right of its PIP joint, every other finger when its tip lies above its PIP joint.
  The caller has checked that there are at least 21 landmarks, so every read is in range.
\<close>

definition fingerExtensions :: "HandLandmark list \<Rightarrow> nat list" where
  "fingerExtensions lms =
     map (\<lambda>(i, tipIdx).
            let tip = lms ! tipIdx; pip = lms ! (fingerPips ! i)
            in if i = 0 then (if lm_x tip > lm_x pip then 1 else 0)
               else (if lm_y tip < lm_y pip then 1 else 0))
         (enumerate 0 fingerTips)"

definition extendedFingers :: "HandLandmark list \<Rightarrow> nat" where
  "extendedFingers lms = sum_list (fingerExtensions lms)"

definition tipDistance :: "HandLandmark \<Rightarrow> HandLandmark \<Rightarrow> real" where
  "tipDistance a b = sqrt ((lm_x a - lm_x b)\<^sup>2 + (lm_y a - lm_y b)\<^sup>2)"

definition detectGesture :: "HandLandmark list \<Rightarrow> GestureState \<Rightarrow> Detected option" where
  "detectGesture lms state =
     (let ext = fingerExtensions lms; n = extendedFingers lms in
      if n \<ge> 4 then Some (Detected open_palm 0.9 None)
      else if n = 0 then Some (Detected closed_fist 0.9 None)
      else if n = 1 \<and> ext ! 0 = 1 then Some (Detected thumbs_up 0.85 None)
      else
        let pinchDistance = tipDistance (lms ! 4) (lms ! 8) in
        if pinchDistance < 0.05 \<and> ext ! 0 = 1 \<and> ext ! 1 = 1
        then Some (Detected pinch 0.9 (Some pinchDistance))
        else if lm_z (lms ! 5) < - 0.1 \<and> ext ! 1 = 1 then Some (Detected push_forward 0.8 None)
        else if \<bar>vx (velocity state)\<bar> > 0.02
        then (if vx (velocity state) > 0 then Some (Detected swipe_right 0.8 None)
              else Some (Detected swipe_left 0.8 None))
        else if n = 2 \<and> ext ! 1 = 1 \<and> ext ! 2 = 1
        then (if tipDistance (lms ! 8) (lms ! 12) > 0.08
              then Some (Detected two_finger_spread 0.8 None)
              else Some (Detected two_finger_pinch 0.8 None))
        else None)"

subsection \<open>processHandGestures\<close>

text \<open>Palm centre: the average of the wrist (landmark 0) and the middle-finger MCP (landmark 9).\<close>

definition palmCenter :: "HandLandmark list \<Rightarrow> Vec2" where
  "palmCenter lms =
     \<lparr>vx = (lm_x (lms ! 0) + lm_x (lms ! 9)) / 2, vy = (lm_y (lms ! 0) + lm_y (lms ! 9)) / 2\<rparr>"

text \<open>
  Lines 63 to 70, in the order of the source: the velocity is written first, from the stored
  \<^verbatim>\<open>previousPosition\<close>; then \<^verbatim>\<open>previousPosition\<close> receives a copy of the position;
  then the position is smoothed.
\<close>

definition updateMotion :: "real \<Rightarrow> Vec2 \<Rightarrow> GestureState \<Rightarrow> GestureState" where
  "updateMotion alpha pc state =
     (let s1 = state\<lparr>velocity := \<lparr>vx = vx pc - vx (previousPosition state),
                                     vy = vy pc - vy (previousPosition state)\<rparr>\<rparr>;
          s2 = s1\<lparr>previousPosition := position s1\<rparr>
      in s2\<lparr>position := \<lparr>vx = vx (position s2) * alpha + vx pc * (1 - alpha),
                            vy = vy (position s2) * alpha + vy pc * (1 - alpha)\<rparr>\<rparr>)"

text \<open>Lines 79 to 87: a new identity when the type differs, the moving average otherwise.\<close>

definition updateIdentity :: "int \<Rightarrow> string \<Rightarrow> Detected \<Rightarrow> GestureState \<Rightarrow> GestureState" where
  "updateIdentity now rnd d state =
     (if lastGesture state \<noteq> Some (d_type d)
      then state\<lparr>lastGesture := Some (d_type d), gestureStartTime := now,
                  gestureId := Some rnd, confidence := d_confidence d\<rparr>
      else state\<lparr>confidence := confidence state * 0.8 + d_confidence d * 0.2\<rparr>)"

text \<open>\<^verbatim>\<open>state.gestureId || undefined\<close>: null and the empty string both give undefined.\<close>

definition eventId :: "string option \<Rightarrow> string option" where
  "eventId gid = (case gid of None \<Rightarrow> None | Some s \<Rightarrow> if s = [] then None else Some s)"

text \<open>Lines 90 to 104: the event that is handed to \<^verbatim>\<open>emitGestureEvent\<close>, if any.\<close>

definition gestureEventOf ::
  "InputAbstractionLayer \<Rightarrow> int \<Rightarrow> HandTrackingResult \<Rightarrow> Detected \<Rightarrow> GestureState
     \<Rightarrow> GestureEvent option" where
  "gestureEventOf ial now result d state =
     (if confidence state \<ge> confidenceThreshold ial
         \<and> now - gestureStartTime state \<ge> gestureHoldTime ial
      then Some \<lparr>ev_id = eventId (gestureId state), ev_type = d_type d,
                 ev_confidence = confidence state, normalizedPosition = position state,
                 ev_handedness = handedness result, ev_timestamp = timestamp result,
                 ev_data = d_data d\<rparr>
      else None)"

text \<open>
  One hand of one frame. The result is the layer with its state map updated and the event passed
  to \<^verbatim>\<open>emitGestureEvent\<close> (the last statement of the branch), or None when nothing is emitted.
\<close>

text \<open>"Get or create gesture state for this hand": the stored state, or the initial one.\<close>

definition stateOf :: "InputAbstractionLayer \<Rightarrow> Handedness \<Rightarrow> GestureState" where
  "stateOf ial handKey =
     (case gestureStates ial handKey of None \<Rightarrow> initialGestureState | Some s \<Rightarrow> s)"

definition processHandGestures ::
  "InputAbstractionLayer \<Rightarrow> int \<Rightarrow> string \<Rightarrow> HandTrackingResult \<Rightarrow> Handedness
     \<Rightarrow> InputAbstractionLayer \<times> GestureEvent option" where
  "processHandGestures ial now rnd result handKey =
     (let lms = landmarks result in
      if length lms < 21 then (ial, None)
      else
        let state0 = stateOf ial handKey;
            state1 = updateMotion (smoothingFactor ial) (palmCenter lms) state0
        in case detectGesture lms state1 of
             Some d \<Rightarrow>
               let state2 = updateIdentity now rnd d state1
               in (ial\<lparr>gestureStates := (gestureStates ial)(handKey \<mapsto> state2)\<rparr>,
                   gestureEventOf ial now result d state2)
           | None \<Rightarrow>
               (ial\<lparr>gestureStates := (gestureStates ial)(handKey \<mapsto>
                      state1\<lparr>lastGesture := None, gestureId := None, confidence := 0\<rparr>)\<rparr>,
                None))"

text \<open>
  \<^verbatim>\<open>processHandTracking\<close>: the loop over the observations, each keyed by its handedness label.
  Every observation comes with the clock reading and the identifier drawn while it is processed.
  The events are collected in the order in which they are handed to \<^verbatim>\<open>emitGestureEvent\<close>.
  The loop keeps nothing between observations, so the frames of a session are one long list.
\<close>

fun processHandTracking ::
  "InputAbstractionLayer \<Rightarrow> (int \<times> string \<times> HandTrackingResult) list
     \<Rightarrow> InputAbstractionLayer \<times> GestureEvent list" where
  "processHandTracking ial [] = (ial, [])"
| "processHandTracking ial ((now, rnd, result) # rest) =
     (let (ial1, ev) = processHandGestures ial now rnd result (handedness result);
          (ial2, evs) = processHandTracking ial1 rest
      in (ial2, (case ev of None \<Rightarrow> [] | Some e \<Rightarrow> [e]) @ evs))"

text \<open>The gesture type classified for an observation, given the layer's state before it.\<close>

definition classified ::
  "InputAbstractionLayer \<Rightarrow> HandTrackingResult \<Rightarrow> Handedness \<Rightarrow> Detected option" where
  "classified ial result handKey =
     detectGesture (landmarks result)
       (updateMotion (smoothingFactor ial) (palmCenter (landmarks result)) (stateOf ial handKey))"

text \<open>\<^verbatim>\<open>updateConfig\<close>: only the fields that are given are overwritten.\<close>

definition updateConfig ::
  "InputAbstractionLayer \<Rightarrow> real option \<Rightarrow> real option \<Rightarrow> int option \<Rightarrow> InputAbstractionLayer" where
  "updateConfig ial smoothing threshold holdTime =
     ial\<lparr>smoothingFactor := (case smoothing of None \<Rightarrow> smoothingFactor ial | Some v \<Rightarrow> v),
         confidenceThreshold := (case threshold of None \<Rightarrow> confidenceThreshold ial | Some v \<Rightarrow> v),
         gestureHoldTime := (case holdTime of None \<Rightarrow> gestureHoldTime ial | Some v \<Rightarrow> v)\<rparr>"

text \<open>
  The layers a program can hold: one with an empty state map (after the constructor or
  \<^verbatim>\<open>destroy\<close>, under any configuration), and what processing an observation or updating the
  configuration makes of a layer it can hold.
\<close>

inductive reachable :: "InputAbstractionLayer \<Rightarrow> bool" where
  fresh: "gestureStates ial = Map.empty \<Longrightarrow> reachable ial"
| observed: "reachable ial \<Longrightarrow>
     reachable (fst (processHandGestures ial now rnd result (handedness result)))"
| configured: "reachable ial \<Longrightarrow> reachable (updateConfig ial smoothing threshold holdTime)"

text \<open>A hand has an identifier exactly when it has a current gesture.\<close>

definition identified :: "InputAbstractionLayer \<Rightarrow> Handedness \<Rightarrow> bool" where
  "identified ial k \<longleftrightarrow>
     (lastGesture (stateOf ial k) = None) = (gestureId (stateOf ial k) = None)"

subsection \<open>Subscribers\<close>

text \<open>
  A subscriber is a JavaScript function: it may change the world around it, it may throw, and
  it may subscribe or unsubscribe, which changes the very array that the dispatch iterates.
  A subscriber is named by a value of type \<open>'c\<close> (equality of names is identity of
  functions), and \<open>run\<close> gives the function behind a name: from the argument, the array as
  it is and the rest of the world to the array and the world it leaves, returning or throwing.
\<close>

datatype ('e, 's) outcome = Returned 's | Threw 'e 's

text \<open>\<^verbatim>\<open>onGestureEvent\<close> and \<^verbatim>\<open>onAction\<close> push the callback onto the array.\<close>

definition onGestureEvent :: "'c list \<Rightarrow> 'c \<Rightarrow> 'c list" where
  "onGestureEvent callbacks callback = callbacks @ [callback]"

definition onAction :: "'c list \<Rightarrow> 'c \<Rightarrow> 'c list" where
  "onAction callbacks callback = callbacks @ [callback]"

text \<open>
  The function they return: \<^verbatim>\<open>indexOf\<close> finds the first occurrence of the callback and
  \<^verbatim>\<open>splice(index, 1)\<close> removes it from the array, in place.
\<close>

definition disposer :: "'c list \<Rightarrow> 'c \<Rightarrow> 'c list" where
  "disposer callbacks callback = remove1 callback callbacks"

text \<open>
  \<^verbatim>\<open>Array.prototype.forEach\<close> on the live array: the length is read once, then every index
  below it is visited in order, and the callback at an index is called if the array still has
  that index. \<open>forEachFrom run n k\<close> visits the \<open>n\<close> indices from \<open>k\<close> on. An exception
  thrown by a subscriber leaves \<^verbatim>\<open>forEach\<close> at once: neither \<^verbatim>\<open>emitGestureEvent\<close> nor
  \<^verbatim>\<open>emitAction\<close> has a try block.
\<close>

fun forEachFrom ::
  "('c \<Rightarrow> 'a \<Rightarrow> 'c list \<times> 'w \<Rightarrow> ('e, 'c list \<times> 'w) outcome) \<Rightarrow> nat \<Rightarrow> nat \<Rightarrow> 'a
     \<Rightarrow> 'c list \<times> 'w \<Rightarrow> ('e, 'c list \<times> 'w) outcome" where
  "forEachFrom run 0 k a s = Returned s"
| "forEachFrom run (Suc n) k a (callbacks, w) =
     (if k < length callbacks
      then (case run (callbacks ! k) a (callbacks, w) of
              Returned s' \<Rightarrow> forEachFrom run n (Suc k) a s'
            | Threw e s' \<Rightarrow> Threw e s')
      else forEachFrom run n (Suc k) a (callbacks, w))"

definition forEach ::
  "('c \<Rightarrow> 'a \<Rightarrow> 'c list \<times> 'w \<Rightarrow> ('e, 'c list \<times> 'w) outcome) \<Rightarrow> 'a
     \<Rightarrow> 'c list \<times> 'w \<Rightarrow> ('e, 'c list \<times> 'w) outcome" where
  "forEach run a s = forEachFrom run (length (fst s)) 0 a s"

definition emitGestureEvent ::
  "('c \<Rightarrow> GestureEvent \<Rightarrow> 'c list \<times> 'w \<Rightarrow> ('e, 'c list \<times> 'w) outcome) \<Rightarrow> 'c list
     \<Rightarrow> GestureEvent \<Rightarrow> 'w \<Rightarrow> ('e, 'c list \<times> 'w) outcome" where
  "emitGestureEvent run callbacks event w = forEach run event (callbacks, w)"

section \<open>GestureMapper\<close>

record GestureMapping =
  gesture :: GestureType
  action :: string
  requireFocus :: "bool option"
  global :: "bool option"
  holdMillis :: "int option"
  mp_confidenceThreshold :: "real option"
  continuous :: "bool option"

text \<open>
  The policies are closures in a \<^verbatim>\<open>Map\<close>, which keeps insertion order. The three default
  closures are named; a closure registered through \<^verbatim>\<open>addPolicy\<close> is a predicate.
  \<^verbatim>\<open>lastActionTimes\<close> is the map captured by the rate-limit closure.
\<close>

datatype Policy = ConfidencePolicy | RateLimitPolicy | ContextPolicy
  | CustomPolicy "GestureEvent \<Rightarrow> bool"

record GestureMapper =
  mappings :: "GestureType \<rightharpoonup> GestureMapping"
  policies :: "(string \<times> Policy) list"
  defaultConfidenceThreshold :: real
  lastActionTimes :: "GestureType \<rightharpoonup> int"

text \<open>\<^verbatim>\<open>a || b\<close> on an optional number: undefined and 0 are falsy and give \<^verbatim>\<open>b\<close>.\<close>

definition jsOr :: "'a::zero option \<Rightarrow> 'a \<Rightarrow> 'a" where
  "jsOr a b = (case a of None \<Rightarrow> b | Some v \<Rightarrow> if v = 0 then b else v)"

text \<open>\<^verbatim>\<open>Map.prototype.set\<close>: an existing key keeps its place, a new key goes last.\<close>

fun mapSet :: "('k \<times> 'v) list \<Rightarrow> 'k \<Rightarrow> 'v \<Rightarrow> ('k \<times> 'v) list" where
  "mapSet [] k v = [(k, v)]"
| "mapSet ((k', v') # rest) k v =
     (if k' = k then (k, v) # rest else (k', v') # mapSet rest k v)"

definition mkMapping :: "GestureType \<Rightarrow> string \<Rightarrow> bool option \<Rightarrow> bool option \<Rightarrow> int option
     \<Rightarrow> GestureMapping" where
  "mkMapping g a rf gl hm =
     \<lparr>gesture = g, action = a, requireFocus = rf, global = gl, holdMillis = hm,
      mp_confidenceThreshold = None, continuous = None\<rparr>"

definition defaultMappings :: "GestureMapping list" where
  "defaultMappings =
     [mkMapping open_palm ''open-launcher'' None (Some True) None,
      mkMapping pinch ''drag'' (Some True) None (Some 80),
      mkMapping push_forward ''click'' (Some True) None None,
      mkMapping swipe_left ''prev-desktop'' None (Some True) None,
      mkMapping swipe_right ''next-desktop'' None (Some True) None,
      mkMapping two_finger_pinch ''minimize'' (Some True) None None,
      mkMapping two_finger_spread ''maximize'' (Some True) None None,
      mkMapping closed_fist ''grab'' (Some True) None None]"

definition setupDefaultMappings :: "GestureMapper \<Rightarrow> GestureMapper" where
  "setupDefaultMappings gm =
     fold (\<lambda>mapping g. g\<lparr>mappings := (mappings g)(gesture mapping \<mapsto> mapping)\<rparr>)
          defaultMappings gm"

definition setupDefaultPolicies :: "GestureMapper \<Rightarrow> GestureMapper" where
  "setupDefaultPolicies gm =
     gm\<lparr>policies := mapSet (mapSet (mapSet (policies gm) ''confidence'' ConfidencePolicy)
                                 ''rateLimit'' RateLimitPolicy) ''context'' ContextPolicy,
        lastActionTimes := Map.empty\<rparr>"

text \<open>The constructor; the argument is \<^verbatim>\<open>config?.confidenceThreshold\<close>.\<close>

definition newGestureMapper :: "real option \<Rightarrow> GestureMapper" where
  "newGestureMapper cfg =
     setupDefaultPolicies (setupDefaultMappings
       \<lparr>mappings = Map.empty, policies = [],
        defaultConfidenceThreshold = (case cfg of None \<Rightarrow> 0.8 | Some t \<Rightarrow> t),
        lastActionTimes = Map.empty\<rparr>)"

definition confidencePolicy :: "GestureMapper \<Rightarrow> GestureEvent \<Rightarrow> bool" where
  "confidencePolicy gm event =
     (let threshold = jsOr (case mappings gm (ev_type event) of
                              None \<Rightarrow> None | Some m \<Rightarrow> mp_confidenceThreshold m)
                           (defaultConfidenceThreshold gm)
      in ev_confidence event \<ge> threshold)"

definition rateLimitPolicy :: "GestureMapper \<Rightarrow> int \<Rightarrow> GestureEvent \<Rightarrow> bool \<times> GestureMapper" where
  "rateLimitPolicy gm now event =
     (let lastTime = jsOr (lastActionTimes gm (ev_type event)) 0;
          minInterval = 200
      in if now - lastTime \<ge> minInterval
         then (True, gm\<lparr>lastActionTimes := (lastActionTimes gm)(ev_type event \<mapsto> now)\<rparr>)
         else (False, gm))"

definition contextPolicy :: "GestureMapper \<Rightarrow> GestureEvent \<Rightarrow> bool" where
  "contextPolicy gm event =
     (case mappings gm (ev_type event) of
        None \<Rightarrow> False
      | Some m \<Rightarrow> if global m = Some True then True
                  else if requireFocus m = Some True then True
                  else True)"

fun runPolicy :: "Policy \<Rightarrow> GestureMapper \<Rightarrow> int \<Rightarrow> GestureEvent \<Rightarrow> bool \<times> GestureMapper" where
  "runPolicy ConfidencePolicy gm now event = (confidencePolicy gm event, gm)"
| "runPolicy RateLimitPolicy gm now event = rateLimitPolicy gm now event"
| "runPolicy ContextPolicy gm now event = (contextPolicy gm event, gm)"
| "runPolicy (CustomPolicy p) gm now event = (p event, gm)"

text \<open>
  \<^verbatim>\<open>Array.from(this.policies.values()).map(policy => policy(event))\<close>: every policy is
  called, in order, whatever the others return.
\<close>

fun policyResults :: "Policy list \<Rightarrow> GestureMapper \<Rightarrow> int \<Rightarrow> GestureEvent
     \<Rightarrow> bool list \<times> GestureMapper" where
  "policyResults [] gm now event = ([], gm)"
| "policyResults (p # ps) gm now event =
     (let (r, gm1) = runPolicy p gm now event;
          (rs, gm2) = policyResults ps gm1 now event
      in (r # rs, gm2))"

text \<open>
  \<^verbatim>\<open>processGesture\<close>: the mapper after the call and the pair handed to
  \<^verbatim>\<open>emitAction\<close>, if any. The \<^verbatim>\<open>holdMillis\<close> branch of the source has an empty body.
\<close>

definition processGesture ::
  "GestureMapper \<Rightarrow> int \<Rightarrow> GestureEvent \<Rightarrow> GestureMapper \<times> (string \<times> GestureEvent) option" where
  "processGesture gm now event =
     (case mappings gm (ev_type event) of
        None \<Rightarrow> (gm, None)
      | Some mapping \<Rightarrow>
          let (results, gm1) = policyResults (map snd (policies gm)) gm now event;
              allPoliciesPassed = list_all (\<lambda>result. result) results
          in if \<not> allPoliciesPassed then (gm1, None)
             else (gm1, Some (action mapping, event)))"

definition emitAction ::
  "('c \<Rightarrow> string \<times> GestureEvent \<Rightarrow> 'c list \<times> 'w \<Rightarrow> ('e, 'c list \<times> 'w) outcome) \<Rightarrow> 'c list
     \<Rightarrow> string \<Rightarrow> GestureEvent \<Rightarrow> 'w \<Rightarrow> ('e, 'c list \<times> 'w) outcome" where
  "emitAction run callbacks act event w = forEach run (act, event) (callbacks, w)"

definition addMapping :: "GestureMapper \<Rightarrow> GestureType \<Rightarrow> GestureMapping \<Rightarrow> GestureMapper" where
  "addMapping gm gestureType mapping =
     gm\<lparr>mappings := (mappings gm)(gestureType \<mapsto> mapping\<lparr>gesture := gestureType\<rparr>)\<rparr>"

section \<open>WindowManager and the window store\<close>

record WebOSWindow =
  w_id :: string
  title :: string
  w_position :: Vec2
  width :: real
  height :: real
  zIndex :: int
  minimized :: bool
  maximized :: bool
  focused :: bool

record SystemStore =
  windows :: "WebOSWindow list"
  focusedWindowId :: "string option"

definition getWindow :: "SystemStore \<Rightarrow> string \<Rightarrow> WebOSWindow option" where
  "getWindow store wid = find (\<lambda>w. w_id w = wid) (windows store)"

text \<open>\<^verbatim>\<open>updateWindow\<close>: the update is the spread of a partial window over the stored one.\<close>

definition updateWindow ::
  "SystemStore \<Rightarrow> string \<Rightarrow> (WebOSWindow \<Rightarrow> WebOSWindow) \<Rightarrow> SystemStore" where
  "updateWindow store wid updates =
     store\<lparr>windows := map (\<lambda>w. if w_id w = wid then updates w else w) (windows store)\<rparr>"

text \<open>\<^verbatim>\<open>setFocusedWindow\<close> of the store.\<close>

definition setFocusedWindow :: "SystemStore \<Rightarrow> string option \<Rightarrow> SystemStore" where
  "setFocusedWindow store wid =
     store\<lparr>focusedWindowId := wid,
           windows := map (\<lambda>w. w\<lparr>focused := (Some (w_id w) = wid)\<rparr>) (windows store)\<rparr>"

record DragState =
  isDragging :: bool
  windowId :: "string option"
  startPosition :: Vec2
  offset :: Vec2
  gestureSequenceId :: "string option"

text \<open>\<^verbatim>\<open>dragTimeout\<close> holds the time at which the pending timer fires, if one is pending.\<close>

record WindowManager =
  dragState :: DragState
  dragTimeout :: "int option"
  nextZIndex :: int

record Viewport =
  innerWidth :: real
  innerHeight :: real

definition idleDragState :: DragState where
  "idleDragState =
     \<lparr>isDragging = False, windowId = None, startPosition = \<lparr>vx = 0, vy = 0\<rparr>,
      offset = \<lparr>vx = 0, vy = 0\<rparr>, gestureSequenceId = None\<rparr>"

definition newWindowManager :: WindowManager where
  "newWindowManager = \<lparr>dragState = idleDragState, dragTimeout = None, nextZIndex = 1000\<rparr>"

definition endDrag :: "WindowManager \<Rightarrow> WindowManager" where
  "endDrag wm = wm\<lparr>dragTimeout := None, dragState := idleDragState\<rparr>"

text \<open>The timer callback of \<^verbatim>\<open>handleDragGesture\<close>, run once the clock has reached it.\<close>

definition fireDragTimeout :: "WindowManager \<Rightarrow> int \<Rightarrow> WindowManager" where
  "fireDragTimeout wm now =
     (case dragTimeout wm of
        None \<Rightarrow> wm
      | Some t \<Rightarrow> if t \<le> now then endDrag wm else wm)"

text \<open>A string or null used as a condition: null and the empty string are falsy.\<close>

definition truthy :: "string option \<Rightarrow> bool" where
  "truthy v = (case v of None \<Rightarrow> False | Some s \<Rightarrow> s \<noteq> [])"

definition constrain :: "Viewport \<Rightarrow> Vec2 \<Rightarrow> Vec2" where
  "constrain vp pos =
     \<lparr>vx = max 0 (min (vx pos) (innerWidth vp - 200)),
      vy = max 0 (min (vy pos) (innerHeight vp - 50))\<rparr>"

definition updateWindowPosition :: "SystemStore \<Rightarrow> Viewport \<Rightarrow> string \<Rightarrow> Vec2 \<Rightarrow> SystemStore" where
  "updateWindowPosition store vp wid pos =
     updateWindow store wid (\<lambda>w. w\<lparr>w_position := constrain vp pos\<rparr>)"

text \<open>The cursor in screen coordinates: \<^verbatim>\<open>screenX\<close> and \<^verbatim>\<open>screenY\<close>.\<close>

definition screenPosition :: "Viewport \<Rightarrow> GestureEvent \<Rightarrow> Vec2" where
  "screenPosition vp event =
     \<lparr>vx = vx (normalizedPosition event) * innerWidth vp,
      vy = vy (normalizedPosition event) * innerHeight vp\<rparr>"

text \<open>The condition of the first branch of \<^verbatim>\<open>handleDragGesture\<close>: the event continues the session.\<close>

definition continuing :: "WindowManager \<Rightarrow> GestureEvent \<Rightarrow> bool" where
  "continuing wm event \<longleftrightarrow>
     isDragging (dragState wm) \<and> truthy (windowId (dragState wm))
     \<and> gestureSequenceId (dragState wm) = ev_id event"

definition handleDragGesture ::
  "WindowManager \<Rightarrow> SystemStore \<Rightarrow> Viewport \<Rightarrow> int \<Rightarrow> GestureEvent
     \<Rightarrow> WindowManager \<times> SystemStore" where
  "handleDragGesture wm store vp now event =
     (let wm1 = wm\<lparr>dragTimeout := Some (now + 200)\<rparr>;
          screen = screenPosition vp event
      in if continuing wm event
         then (case windowId (dragState wm) of
                 None \<Rightarrow> (wm1, store)
               | Some wid \<Rightarrow>
                   (wm1, updateWindowPosition store vp wid
                           \<lparr>vx = vx screen - vx (offset (dragState wm)),
                            vy = vy screen - vy (offset (dragState wm))\<rparr>))
         else if truthy (focusedWindowId store)
         then (case focusedWindowId store of
                 None \<Rightarrow> (wm1, store)
               | Some wid \<Rightarrow>
                   (case getWindow store wid of
                      None \<Rightarrow> (wm1, store)
                    | Some windowObj \<Rightarrow>
                        (wm1\<lparr>dragState :=
                           \<lparr>isDragging = True, windowId = Some wid, startPosition = screen,
                            offset = \<lparr>vx = vx screen - vx (w_position windowObj),
                                      vy = vy screen - vy (w_position windowObj)\<rparr>,
                            gestureSequenceId = ev_id event\<rparr>\<rparr>, store)))
         else (wm1, store))"

section \<open>Example observations\<close>

text \<open>A hand whose 21 landmarks all lie at one point: no finger is extended.\<close>

definition handAt :: "real \<Rightarrow> real \<Rightarrow> HandLandmark list" where
  "handAt cx cy = replicate 21 \<lparr>lm_x = cx, lm_y = cy, lm_z = 0\<rparr>"

text \<open>Thumb and index extended, their tips 0.03 apart.\<close>

definition pinchHand :: "HandLandmark list" where
  "pinchHand = (handAt 0.5 0.5)[4 := \<lparr>lm_x = 0.53, lm_y = 0.47, lm_z = 0\<rparr>,
                                 8 := \<lparr>lm_x = 0.5, lm_y = 0.47, lm_z = 0\<rparr>]"

text \<open>Index, middle and ring finger extended, at rest at the left edge: no rule matches.\<close>

definition threeFingerHand :: "HandLandmark list" where
  "threeFingerHand = (handAt 0 0.5)[8 := \<lparr>lm_x = 0, lm_y = 0.4, lm_z = 0\<rparr>,
                                   12 := \<lparr>lm_x = 0, lm_y = 0.4, lm_z = 0\<rparr>,
                                   16 := \<lparr>lm_x = 0, lm_y = 0.4, lm_z = 0\<rparr>]"

text \<open>All five fingers extended.\<close>

definition openHand :: "HandLandmark list" where
  "openHand = (handAt 0.5 0.5)[4 := \<lparr>lm_x = 0.6, lm_y = 0.5, lm_z = 0\<rparr>,
                                8 := \<lparr>lm_x = 0.5, lm_y = 0.4, lm_z = 0\<rparr>,
                                12 := \<lparr>lm_x = 0.5, lm_y = 0.4, lm_z = 0\<rparr>,
                                16 := \<lparr>lm_x = 0.5, lm_y = 0.4, lm_z = 0\<rparr>,
                                20 := \<lparr>lm_x = 0.5, lm_y = 0.4, lm_z = 0\<rparr>]"

definition observation :: "HandLandmark list \<Rightarrow> int \<Rightarrow> HandTrackingResult" where
  "observation lms t = \<lparr>landmarks = lms, handedness = Right, r_confidence = 0.8, timestamp = t\<rparr>"

text \<open>A fist held still at the centre of the image, seen in three successive frames by a new layer.\<close>

definition firstFist :: InputAbstractionLayer where
  "firstFist = fst (processHandGestures newInputAbstractionLayer 1000 ''a1b2c3d4e''
                      (observation (handAt 0.5 0.5) 1000) Right)"

definition secondFist :: InputAbstractionLayer where
  "secondFist = fst (processHandGestures firstFist 1040 ''f5g6h7i8j''
                      (observation (handAt 0.5 0.5) 1040) Right)"

definition thirdFist :: InputAbstractionLayer where
  "thirdFist = fst (processHandGestures secondFist 1080 ''k9l0m1n2o''
                      (observation (handAt 0.5 0.5) 1080) Right)"

text \<open>The default layer after \<^verbatim>\<open>updateConfig({ confidenceThreshold: 0 })\<close>.\<close>

definition zeroThreshold :: InputAbstractionLayer where
  "zeroThreshold = updateConfig newInputAbstractionLayer None (Some 0) None"

text \<open>The resting fist of the first frame opens in the second frame.\<close>

definition fistOpened :: InputAbstractionLayer where
  "fistOpened = fst (processHandGestures firstFist 1040 ''f5g6h7i8j''
                      (observation openHand 1040) Right)"

text \<open>The same, when the identifier drawn for the open palm equals the one drawn for the fist.\<close>

definition fistOpenedSameDraw :: InputAbstractionLayer where
  "fistOpenedSameDraw = fst (processHandGestures firstFist 1040 ''a1b2c3d4e''
                              (observation openHand 1040) Right)"

text \<open>The resting fist of the three frames is held through a fourth and a fifth frame.\<close>

definition fistHeld :: "InputAbstractionLayer \<times> GestureEvent option" where
  "fistHeld = processHandGestures thirdFist 1160 ''p3q4r5s6t''
                (observation (handAt 0.5 0.5) 1160) Right"

definition fistHeldOn :: "InputAbstractionLayer \<times> GestureEvent option" where
  "fistHeldOn = processHandGestures (fst fistHeld) 1200 ''u7v8w9x0y''
                  (observation (handAt 0.5 0.5) 1200) Right"

section \<open>Example events, mappers and subscribers\<close>

text \<open>A pinch event with a given confidence and timestamp.\<close>

definition pinchEvent :: "real \<Rightarrow> int \<Rightarrow> GestureEvent" where
  "pinchEvent c t =
     \<lparr>ev_id = Some ''a1b2c3d4e'', ev_type = pinch, ev_confidence = c,
      normalizedPosition = \<lparr>vx = 0.5, vy = 0.5\<rparr>, ev_handedness = Right, ev_timestamp = t,
      ev_data = Some 0.03\<rparr>"

text \<open>
  The default mapper after \<^verbatim>\<open>addMapping('pinch', { action: 'drag', requireFocus: true,
  holdMillis: 80, confidenceThreshold: 0 })\<close>.
\<close>

definition pinchThresholdZero :: GestureMapper where
  "pinchThresholdZero =
     addMapping (newGestureMapper None) pinch
       ((mkMapping pinch ''drag'' (Some True) None (Some 80))\<lparr>mp_confidenceThreshold := Some 0\<rparr>)"

text \<open>
  Three kinds of subscriber over a world that is the list of the calls received so far: one
  records its call and returns, one throws, one records its call and then calls the disposer it
  got when it subscribed.
\<close>

datatype exampleSubscriber = Recording nat | Throwing | Leaving nat

fun exampleRun ::
  "exampleSubscriber \<Rightarrow> 'a \<Rightarrow> exampleSubscriber list \<times> (exampleSubscriber \<times> 'a) list
     \<Rightarrow> (string, exampleSubscriber list \<times> (exampleSubscriber \<times> 'a) list) outcome" where
  "exampleRun (Recording i) a (callbacks, calls) =
     Returned (callbacks, calls @ [(Recording i, a)])"
| "exampleRun Throwing a (callbacks, calls) = Threw ''subscriber failed'' (callbacks, calls)"
| "exampleRun (Leaving i) a (callbacks, calls) =
     Returned (disposer callbacks (Leaving i), calls @ [(Leaving i, a)])"

section \<open>Example desktop\<close>

text \<open>The componentwise difference of two points.\<close>

definition delta :: "Vec2 \<Rightarrow> Vec2 \<Rightarrow> Vec2" where
  "delta a b = \<lparr>vx = vx a - vx b, vy = vy a - vy b\<rparr>"

text \<open>A drag-mapped event of a given gesture identifier at a normalized position.\<close>

definition dragEvent :: "string \<Rightarrow> real \<Rightarrow> real \<Rightarrow> GestureEvent" where
  "dragEvent gid px py =
     \<lparr>ev_id = Some gid, ev_type = pinch, ev_confidence = 9/10,
      normalizedPosition = \<lparr>vx = px, vy = py\<rparr>, ev_handedness = Right, ev_timestamp = 0,
      ev_data = Some (3/100)\<rparr>"

text \<open>One focused window at (100, 100) on a viewport of 1000 by 800 pixels.\<close>

definition desk :: SystemStore where
  "desk =
     \<lparr>windows = [\<lparr>w_id = ''window-1'', title = ''Files'', w_position = \<lparr>vx = 100, vy = 100\<rparr>,
                  width = 800, height = 600, zIndex = 1000, minimized = False, maximized = False,
                  focused = True\<rparr>],
      focusedWindowId = Some ''window-1''\<rparr>"

definition display :: Viewport where
  "display = \<lparr>innerWidth = 1000, innerHeight = 800\<rparr>"

text \<open>
  A first drag event at the normalized position (0.2, 0.25) opens a session. The same gesture
  then moves right to (0.95, 0.25) and further to (1, 0.25); or it moves to (0.3, 0.25) and on
  to (0.4, 0.5).
\<close>

definition dragStarted :: "WindowManager \<times> SystemStore" where
  "dragStarted = handleDragGesture newWindowManager desk display 1000 (dragEvent ''a1b2c3d4e'' (1/5) (1/4))"

definition draggedRight :: "WindowManager \<times> SystemStore" where
  "draggedRight = handleDragGesture (fst dragStarted) (snd dragStarted) display 1040
                    (dragEvent ''a1b2c3d4e'' (19/20) (1/4))"

definition draggedFurther :: "WindowManager \<times> SystemStore" where
  "draggedFurther = handleDragGesture (fst draggedRight) (snd draggedRight) display 1080
                      (dragEvent ''a1b2c3d4e'' 1 (1/4))"

definition draggedLeft :: "WindowManager \<times> SystemStore" where
  "draggedLeft = handleDragGesture (fst dragStarted) (snd dragStarted) display 1040
                    (dragEvent ''a1b2c3d4e'' (3/10) (1/4))"

definition draggedDown :: "WindowManager \<times> SystemStore" where
  "draggedDown = handleDragGesture (fst draggedLeft) (snd draggedLeft) display 1080
                    (dragEvent ''a1b2c3d4e'' (2/5) (1/2))"

text \<open>
  After the session has been opened, an event of another gesture identifier arrives: once with
  the window still focused, once after the store's focus has been cleared.
\<close>

definition refocusedDrag :: "WindowManager \<times> SystemStore" where
  "refocusedDrag = handleDragGesture (fst dragStarted) (snd dragStarted) display 1040
                     (dragEvent ''f5g6h7i8j'' (3/10) (1/4))"

definition unfocusedDrag :: "WindowManager \<times> SystemStore" where
  "unfocusedDrag = handleDragGesture (fst dragStarted) (setFocusedWindow (snd dragStarted) None)
                     display 1040 (dragEvent ''f5g6h7i8j'' (3/10) (1/4))"

section \<open>The sustained pinch\<close>

text \<open>
  A hand shows the pinch of the scenario: at least 21 landmarks, thumb and index extended,
  fewer than four fingers extended in all, thumb tip and index tip 0.03 apart.
\<close>

definition pinchShape :: "HandLandmark list \<Rightarrow> bool" where
  "pinchShape lms \<longleftrightarrow>
     21 \<le> length lms \<and> lm_x (lms ! 4) > lm_x (lms ! 3) \<and> lm_y (lms ! 8) < lm_y (lms ! 6)
     \<and> extendedFingers lms < 4 \<and> tipDistance (lms ! 4) (lms ! 8) = 3/100"

text \<open>
  The state of a hand that has been pinching since \<open>t0\<close> under the identifier \<open>rnd0\<close>.
\<close>

definition pinching :: "InputAbstractionLayer \<Rightarrow> Handedness \<Rightarrow> int \<Rightarrow> string \<Rightarrow> bool" where
  "pinching ial k t0 rnd0 \<longleftrightarrow>
     lastGesture (stateOf ial k) = Some pinch \<and> gestureStartTime (stateOf ial k) = t0
     \<and> gestureId (stateOf ial k) = Some rnd0 \<and> confidence (stateOf ial k) = 9/10"

text \<open>The pinching hand seen by a new layer at 0, 40 and 80 ms.\<close>

definition pinchFrames :: "(int \<times> string \<times> HandTrackingResult) list" where
  "pinchFrames =
     [(1000, ''a1b2c3d4e'', observation pinchHand 1000),
      (1040, ''f5g6h7i8j'', observation pinchHand 1040),
      (1080, ''k9l0m1n2o'', observation pinchHand 1080)]"

section \<open>Classifier: basic facts\<close>

lemma updateMotion_fields:
  "velocity (updateMotion a pc s) = \<lparr>vx = vx pc - vx (previousPosition s), vy = vy pc - vy (previousPosition s)\<rparr>"
  "previousPosition (updateMotion a pc s) = position s"
  "position (updateMotion a pc s) = \<lparr>vx = vx (position s) * a + vx pc * (1 - a), vy = vy (position s) * a + vy pc * (1 - a)\<rparr>"
  "lastGesture (updateMotion a pc s) = lastGesture s"
  "gestureStartTime (updateMotion a pc s) = gestureStartTime s"
  "gestureId (updateMotion a pc s) = gestureId s"
  "confidence (updateMotion a pc s) = confidence s"
  by (simp_all add: updateMotion_def Let_def)

lemma updateIdentity_motion:
  "velocity (updateIdentity now rnd d s) = velocity s"
  "previousPosition (updateIdentity now rnd d s) = previousPosition s"
  "position (updateIdentity now rnd d s) = position s"
  by (simp_all add: updateIdentity_def)

lemma stateOf_after:
  assumes "21 \<le> length (landmarks r)"
  shows "stateOf (fst (processHandGestures ial now rnd r k)) k =
     (let s1 = updateMotion (smoothingFactor ial) (palmCenter (landmarks r)) (stateOf ial k)
      in case classified ial r k of
           Some d \<Rightarrow> updateIdentity now rnd d s1
         | None \<Rightarrow> s1\<lparr>lastGesture := None, gestureId := None, confidence := 0\<rparr>)"
  using assms
  by (simp add: processHandGestures_def classified_def stateOf_def Let_def split: option.splits)

lemma stateOf_other:
  "k' \<noteq> k \<Longrightarrow> stateOf (fst (processHandGestures ial now rnd r k)) k' = stateOf ial k'"
  by (simp add: processHandGestures_def stateOf_def Let_def split: option.splits)

lemma event_after:
  assumes "21 \<le> length (landmarks r)"
  shows "snd (processHandGestures ial now rnd r k) =
     (case classified ial r k of
        Some d \<Rightarrow> gestureEventOf ial now r d (stateOf (fst (processHandGestures ial now rnd r k)) k)
      | None \<Rightarrow> None)"
  using assms
  by (simp add: processHandGestures_def classified_def stateOf_def Let_def split: option.splits)

lemma config_after:
  "smoothingFactor (fst (processHandGestures ial now rnd r k)) = smoothingFactor ial"
  "confidenceThreshold (fst (processHandGestures ial now rnd r k)) = confidenceThreshold ial"
  "gestureHoldTime (fst (processHandGestures ial now rnd r k)) = gestureHoldTime ial"
  by (simp_all add: processHandGestures_def Let_def split: option.splits)

lemma motion_after:
  assumes "21 \<le> length (landmarks r)"
  shows "velocity (stateOf (fst (processHandGestures ial now rnd r k)) k) =
           \<lparr>vx = vx (palmCenter (landmarks r)) - vx (previousPosition (stateOf ial k)),
            vy = vy (palmCenter (landmarks r)) - vy (previousPosition (stateOf ial k))\<rparr>"
    and "previousPosition (stateOf (fst (processHandGestures ial now rnd r k)) k) = position (stateOf ial k)"
    and "position (stateOf (fst (processHandGestures ial now rnd r k)) k) =
           \<lparr>vx = vx (position (stateOf ial k)) * smoothingFactor ial
                  + vx (palmCenter (landmarks r)) * (1 - smoothingFactor ial),
            vy = vy (position (stateOf ial k)) * smoothingFactor ial
                  + vy (palmCenter (landmarks r)) * (1 - smoothingFactor ial)\<rparr>"
  using assms
  by (simp_all add: stateOf_after Let_def updateMotion_fields updateIdentity_motion split: option.splits)

lemma lastGesture_after:
  assumes "21 \<le> length (landmarks r)"
  shows "lastGesture (stateOf (fst (processHandGestures ial now rnd r k)) k) =
           map_option d_type (classified ial r k)"
  using assms
  by (simp add: stateOf_after Let_def updateIdentity_def updateMotion_fields split: option.splits)

lemma gestureId_after:
  assumes "21 \<le> length (landmarks r)"
  shows "gestureId (stateOf (fst (processHandGestures ial now rnd r k)) k) =
           (case classified ial r k of
              None \<Rightarrow> None
            | Some d \<Rightarrow> if lastGesture (stateOf ial k) \<noteq> Some (d_type d) then Some rnd
                        else gestureId (stateOf ial k))"
  using assms
  by (simp add: stateOf_after Let_def updateIdentity_def updateMotion_fields split: option.splits)

section \<open>The example observations\<close>

lemma fingerExtensions_expand:
  "fingerExtensions lms =
     [if lm_x (lms ! 4) > lm_x (lms ! 3) then 1 else 0,
      if lm_y (lms ! 8) < lm_y (lms ! 6) then 1 else 0,
      if lm_y (lms ! 12) < lm_y (lms ! 10) then 1 else 0,
      if lm_y (lms ! 16) < lm_y (lms ! 14) then 1 else 0,
      if lm_y (lms ! 20) < lm_y (lms ! 18) then 1 else 0]"
  by (simp add: fingerExtensions_def fingerTips_def fingerPips_def)

lemma length_examples [simp]:
  "length (handAt a b) = 21" "length pinchHand = 21" "length threeFingerHand = 21"
  "length openHand = 21"
  by (simp_all add: handAt_def pinchHand_def threeFingerHand_def openHand_def)

lemma palmCenter_examples [simp]:
  "palmCenter (handAt a b) = \<lparr>vx = a, vy = b\<rparr>"
  "palmCenter pinchHand = \<lparr>vx = 0.5, vy = 0.5\<rparr>"
  "palmCenter threeFingerHand = \<lparr>vx = 0, vy = 0.5\<rparr>"
  "palmCenter openHand = \<lparr>vx = 0.5, vy = 0.5\<rparr>"
  by (simp_all add: palmCenter_def handAt_def pinchHand_def threeFingerHand_def openHand_def)

lemma detect_handAt: "detectGesture (handAt a b) s = Some (Detected closed_fist 0.9 None)"
  by (simp add: detectGesture_def extendedFingers_def fingerExtensions_expand Let_def handAt_def)

lemma detect_openHand: "detectGesture openHand s = Some (Detected open_palm 0.9 None)"
  by (simp add: detectGesture_def extendedFingers_def fingerExtensions_expand Let_def
      openHand_def handAt_def)

lemma detect_threeFingerHand:
  "\<bar>vx (velocity s)\<bar> \<le> 0.02 \<Longrightarrow> detectGesture threeFingerHand s = None"
  by (simp add: detectGesture_def extendedFingers_def fingerExtensions_expand Let_def
      threeFingerHand_def handAt_def)

lemma tipDistance_pinchHand: "tipDistance (pinchHand ! 4) (pinchHand ! 8) = 0.03"
proof -
  have "sqrt ((0.03::real)\<^sup>2) = 0.03" by (simp only: real_sqrt_abs) simp
  then show ?thesis by (simp add: tipDistance_def pinchHand_def handAt_def)
qed

lemma observation_simps [simp]:
  "landmarks (observation l t) = l" "handedness (observation l t) = Right"
  "timestamp (observation l t) = t"
  by (simp_all add: observation_def)

lemma newInputAbstractionLayer_simps [simp]:
  "stateOf newInputAbstractionLayer k = initialGestureState"
  "smoothingFactor newInputAbstractionLayer = 0.6"
  "confidenceThreshold newInputAbstractionLayer = 0.8"
  "gestureHoldTime newInputAbstractionLayer = 150"
  by (simp_all add: newInputAbstractionLayer_def stateOf_def)

lemma gate_iff:
  assumes "21 \<le> length (landmarks r)"
  shows "snd (processHandGestures ial now rnd r k) \<noteq> None \<longleftrightarrow>
           lastGesture (stateOf (fst (processHandGestures ial now rnd r k)) k) \<noteq> None
           \<and> confidence (stateOf (fst (processHandGestures ial now rnd r k)) k) \<ge> confidenceThreshold ial
           \<and> now - gestureStartTime (stateOf (fst (processHandGestures ial now rnd r k)) k)
               \<ge> gestureHoldTime ial"
  using assms
  by (simp add: event_after lastGesture_after gestureEventOf_def split: option.splits)

lemma confidence_reset:
  assumes "21 \<le> length (landmarks r)"
    and "lastGesture (stateOf (fst (processHandGestures ial now rnd r k)) k) = None"
  shows "confidence (stateOf (fst (processHandGestures ial now rnd r k)) k) = 0"
  using assms
  by (simp add: stateOf_after Let_def updateIdentity_def split: option.splits if_splits)

lemma stateOf_short:
  "length (landmarks r) < 21 \<Longrightarrow> stateOf (fst (processHandGestures ial now rnd r k)) k' = stateOf ial k'"
  by (simp add: processHandGestures_def)

lemma identified_step:
  assumes "identified ial k'"
  shows "identified (fst (processHandGestures ial now rnd r k)) k'"
proof (cases "length (landmarks r) < 21")
  case True
  then show ?thesis using assms by (simp add: identified_def stateOf_short)
next
  case long: False
  show ?thesis
  proof (cases "k' = k")
    case False
    then show ?thesis using assms by (simp add: identified_def stateOf_other)
  next
    case True
    with long assms show ?thesis
      by (auto simp add: identified_def lastGesture_after gestureId_after split: option.splits)
  qed
qed

lemma stateOf_updateConfig [simp]: "stateOf (updateConfig ial a b c) k = stateOf ial k"
  by (simp add: stateOf_def updateConfig_def)

lemma reachable_identified: "reachable ial \<Longrightarrow> identified ial k"
proof (induction rule: reachable.induct)
  case (fresh ial)
  then show ?case by (simp add: identified_def stateOf_def initialGestureState_def)
next
  case (observed ial now rnd result)
  then show ?case by (simp add: identified_step)
next
  case (configured ial smoothing threshold holdTime)
  then show ?case by (simp add: identified_def)
qed

section \<open>Malformed input\<close>

text \<open>
  C9. An observation with fewer than 21 landmarks emits no event and leaves the classifier's
  state exactly as it was: no entry is created for an unseen key and no field of an existing
  entry changes.
\<close>

theorem short_frame_ignored:
  assumes "length (landmarks result) < 21"
  shows "processHandGestures ial now rnd result handKey = (ial, None)"
  using assms by (simp add: processHandGestures_def)

theorem short_frame_ignored_witness:
  "processHandGestures newInputAbstractionLayer 1000 ''k3j2h1g0f''
     \<lparr>landmarks = replicate 20 \<lparr>lm_x = 0.5, lm_y = 0.5, lm_z = 0\<rparr>, handedness = Right,
      r_confidence = 0.9, timestamp = 1000\<rparr> Right
   = (newInputAbstractionLayer, None)
   \<and> gestureStates (fst (processHandGestures newInputAbstractionLayer 1000 ''k3j2h1g0f''
     \<lparr>landmarks = replicate 20 \<lparr>lm_x = 0.5, lm_y = 0.5, lm_z = 0\<rparr>, handedness = Right,
      r_confidence = 0.9, timestamp = 1000\<rparr> Right)) Right = None"
  using short_frame_ignored [of "\<lparr>landmarks = replicate 20 \<lparr>lm_x = 0.5, lm_y = 0.5, lm_z = 0\<rparr>,
      handedness = Right, r_confidence = 0.9, timestamp = 1000\<rparr>" newInputAbstractionLayer 1000
      "''k3j2h1g0f''" Right]
  by (simp add: newInputAbstractionLayer_def)

section \<open>Velocity\<close>

text \<open>
  C3, as the code has it. The velocity written while frame n is processed is the palm centre of
  frame n minus the stored \<^verbatim>\<open>previousPosition\<close>, and that field was filled during frame
  n - 1 with the position as it stood before the smoothing of frame n - 1. So the velocity of
  frame n is the palm centre of frame n minus the smoothed position that the hand had before
  frame n - 1 was processed, for any two successive frames of at least 21 landmarks.
\<close>

theorem velocity_uses_position_before_previous_frame:
  assumes "21 \<le> length (landmarks r1)" and "21 \<le> length (landmarks r2)"
  shows "velocity (stateOf (fst (processHandGestures
            (fst (processHandGestures ial now1 rnd1 r1 k)) now2 rnd2 r2 k)) k) =
         \<lparr>vx = vx (palmCenter (landmarks r2)) - vx (position (stateOf ial k)),
          vy = vy (palmCenter (landmarks r2)) - vy (position (stateOf ial k))\<rparr>"
  using assms by (simp add: motion_after)

theorem velocity_uses_position_before_previous_frame_witness:
  "21 \<le> length (landmarks (observation (handAt 0.5 0.5) 1040))
   \<and> 21 \<le> length (landmarks (observation (handAt 0.5 0.5) 1080))
   \<and> position (stateOf firstFist Right) = \<lparr>vx = 1/5, vy = 1/5\<rparr>
   \<and> velocity (stateOf thirdFist Right) = \<lparr>vx = 3/10, vy = 3/10\<rparr>"
  using velocity_uses_position_before_previous_frame
    [of "observation (handAt 0.5 0.5) 1040" "observation (handAt 0.5 0.5) 1080" firstFist
        1040 "''f5g6h7i8j''" Right 1080 "''k9l0m1n2o''"]
  by (simp add: thirdFist_def secondFist_def)
     (simp add: firstFist_def motion_after initialGestureState_def)

text \<open>
  The claim as it is written fails on the third frame of the resting fist: the smoothed position
  that resulted from the second frame is (0.32, 0.32) and the palm centre is (0.5, 0.5), which
  would give a velocity of (0.18, 0.18); the code stores (0.3, 0.3).
\<close>

theorem velocity_previous_frame_counterexample:
  "position (stateOf secondFist Right) = \<lparr>vx = 8/25, vy = 8/25\<rparr>
   \<and> palmCenter (landmarks (observation (handAt 0.5 0.5) 1080)) = \<lparr>vx = 1/2, vy = 1/2\<rparr>
   \<and> velocity (stateOf thirdFist Right) = \<lparr>vx = 3/10, vy = 3/10\<rparr>
   \<and> velocity (stateOf thirdFist Right) \<noteq>
       \<lparr>vx = vx (palmCenter (landmarks (observation (handAt 0.5 0.5) 1080)))
               - vx (position (stateOf secondFist Right)),
        vy = vy (palmCenter (landmarks (observation (handAt 0.5 0.5) 1080)))
               - vy (position (stateOf secondFist Right))\<rparr>"
  by (simp add: thirdFist_def secondFist_def firstFist_def motion_after config_after
      initialGestureState_def)

section \<open>The emission gate\<close>

text \<open>
  C4, as the code has it. For every observation of at least 21 landmarks, an event is emitted
  if and only if a gesture is classified in this frame (the hand's \<^verbatim>\<open>lastGesture\<close> is set
  afterwards), the hand's running confidence is at least the configured threshold and the time
  since \<^verbatim>\<open>gestureStartTime\<close> is at least the configured hold time. So no event is emitted
  before the hold time has elapsed, whatever the confidence. When the configured threshold is
  positive, the first condition follows from the second, since a frame without a gesture resets
  the confidence to 0.
\<close>

theorem emission_gate:
  assumes "21 \<le> length (landmarks r)"
  shows "(snd (processHandGestures ial now rnd r k) \<noteq> None \<longleftrightarrow>
           lastGesture (stateOf (fst (processHandGestures ial now rnd r k)) k) \<noteq> None
           \<and> confidence (stateOf (fst (processHandGestures ial now rnd r k)) k) \<ge> confidenceThreshold ial
           \<and> now - gestureStartTime (stateOf (fst (processHandGestures ial now rnd r k)) k)
               \<ge> gestureHoldTime ial)
       \<and> (0 < confidenceThreshold ial \<longrightarrow>
           (snd (processHandGestures ial now rnd r k) \<noteq> None \<longleftrightarrow>
             confidence (stateOf (fst (processHandGestures ial now rnd r k)) k) \<ge> confidenceThreshold ial
             \<and> now - gestureStartTime (stateOf (fst (processHandGestures ial now rnd r k)) k)
                 \<ge> gestureHoldTime ial))"
proof -
  let ?s = "stateOf (fst (processHandGestures ial now rnd r k)) k"
  have a: "snd (processHandGestures ial now rnd r k) \<noteq> None \<longleftrightarrow>
      lastGesture ?s \<noteq> None \<and> confidence ?s \<ge> confidenceThreshold ial
      \<and> now - gestureStartTime ?s \<ge> gestureHoldTime ial"
    using assms by (rule gate_iff)
  have b: "lastGesture ?s = None \<Longrightarrow> confidence ?s = 0"
    using assms by (rule confidence_reset)
  show ?thesis using a b by auto
qed

theorem emission_gate_witness:
  "21 \<le> length (landmarks (observation (handAt 0.5 0.5) 1160))
   \<and> 0 < confidenceThreshold thirdFist
   \<and> snd (processHandGestures thirdFist 1160 ''p3q4r5s6t'' (observation (handAt 0.5 0.5) 1160) Right) \<noteq> None
   \<and> snd (processHandGestures secondFist 1080 ''k9l0m1n2o'' (observation (handAt 0.5 0.5) 1080) Right) = None"
  using emission_gate [of "observation (handAt 0.5 0.5) 1160" thirdFist 1160 "''p3q4r5s6t''" Right]
    emission_gate [of "observation (handAt 0.5 0.5) 1080" secondFist 1080 "''k9l0m1n2o''" Right]
  by (simp add: thirdFist_def secondFist_def firstFist_def config_after stateOf_after
      classified_def detect_handAt updateIdentity_def updateMotion_fields Let_def
      initialGestureState_def)

text \<open>
  The claim as it is written fails for a threshold configured to 0: a hand that shows no
  gesture emits nothing, although its confidence (0) reaches the threshold and the hold time
  has long elapsed since its start time.
\<close>

theorem emission_without_gesture_counterexample:
  "confidenceThreshold zeroThreshold = 0 \<and> gestureHoldTime zeroThreshold = 150
   \<and> snd (processHandGestures zeroThreshold 1000 ''a1b2c3d4e'' (observation threeFingerHand 1000) Right) = None
   \<and> confidence (stateOf (fst (processHandGestures zeroThreshold 1000 ''a1b2c3d4e''
        (observation threeFingerHand 1000) Right)) Right) \<ge> confidenceThreshold zeroThreshold
   \<and> 1000 - gestureStartTime (stateOf (fst (processHandGestures zeroThreshold 1000 ''a1b2c3d4e''
        (observation threeFingerHand 1000) Right)) Right) \<ge> gestureHoldTime zeroThreshold"
proof -
  have z: "stateOf zeroThreshold Right = initialGestureState" "smoothingFactor zeroThreshold = 0.6"
    "confidenceThreshold zeroThreshold = 0" "gestureHoldTime zeroThreshold = 150"
    by (simp_all add: zeroThreshold_def updateConfig_def stateOf_def newInputAbstractionLayer_def)
  have c: "classified zeroThreshold (observation threeFingerHand 1000) Right = None"
    by (simp add: classified_def z detect_threeFingerHand updateMotion_fields initialGestureState_def)
  show ?thesis
    by (simp add: z c event_after stateOf_after Let_def updateMotion_fields initialGestureState_def)
qed


section \<open>Gesture identity\<close>

lemma event_fields:
  assumes "21 \<le> length (landmarks r)" and "snd (processHandGestures ial now rnd r k) = Some e"
  shows "ev_id e = eventId (gestureId (stateOf (fst (processHandGestures ial now rnd r k)) k))"
    and "Some (ev_type e) = map_option d_type (classified ial r k)"
    and "ev_confidence e = confidence (stateOf (fst (processHandGestures ial now rnd r k)) k)"
  using assms
  by (auto simp add: event_after gestureEventOf_def split: option.splits if_splits)

lemma fist_new:
  assumes "lastGesture (stateOf ial k) \<noteq> Some closed_fist"
  shows "lastGesture (stateOf (fst (processHandGestures ial now rnd (observation (handAt a b) t) k)) k)
           = Some closed_fist"
    and "gestureStartTime (stateOf (fst (processHandGestures ial now rnd
           (observation (handAt a b) t) k)) k) = now"
    and "gestureId (stateOf (fst (processHandGestures ial now rnd (observation (handAt a b) t) k)) k)
           = Some rnd"
    and "confidence (stateOf (fst (processHandGestures ial now rnd (observation (handAt a b) t) k)) k)
           = 9/10"
  using assms
  by (simp_all add: stateOf_after classified_def detect_handAt Let_def updateIdentity_def
      updateMotion_fields)

lemma fist_held:
  assumes "lastGesture (stateOf ial k) = Some closed_fist"
  shows "lastGesture (stateOf (fst (processHandGestures ial now rnd (observation (handAt a b) t) k)) k)
           = Some closed_fist"
    and "gestureStartTime (stateOf (fst (processHandGestures ial now rnd
           (observation (handAt a b) t) k)) k) = gestureStartTime (stateOf ial k)"
    and "gestureId (stateOf (fst (processHandGestures ial now rnd (observation (handAt a b) t) k)) k)
           = gestureId (stateOf ial k)"
    and "confidence (stateOf (fst (processHandGestures ial now rnd (observation (handAt a b) t) k)) k)
           = confidence (stateOf ial k) * 8/10 + 18/100"
  using assms
  by (simp_all add: stateOf_after classified_def detect_handAt Let_def updateIdentity_def
      updateMotion_fields)

lemma firstFist_fields:
  "lastGesture (stateOf firstFist Right) = Some closed_fist"
  "gestureStartTime (stateOf firstFist Right) = 1000"
  "gestureId (stateOf firstFist Right) = Some ''a1b2c3d4e''"
  "confidence (stateOf firstFist Right) = 9/10"
  unfolding firstFist_def by (simp_all add: fist_new initialGestureState_def)

lemma secondFist_fields:
  "lastGesture (stateOf secondFist Right) = Some closed_fist"
  "gestureStartTime (stateOf secondFist Right) = 1000"
  "gestureId (stateOf secondFist Right) = Some ''a1b2c3d4e''"
  "confidence (stateOf secondFist Right) = 9/10"
  unfolding secondFist_def by (simp_all add: fist_held firstFist_fields)

lemma thirdFist_fields:
  "lastGesture (stateOf thirdFist Right) = Some closed_fist"
  "gestureStartTime (stateOf thirdFist Right) = 1000"
  "gestureId (stateOf thirdFist Right) = Some ''a1b2c3d4e''"
  "confidence (stateOf thirdFist Right) = 9/10"
  unfolding thirdFist_def by (simp_all add: fist_held secondFist_fields)

lemma fistHeld_fields:
  "lastGesture (stateOf (fst fistHeld) Right) = Some closed_fist"
  "gestureStartTime (stateOf (fst fistHeld) Right) = 1000"
  "gestureId (stateOf (fst fistHeld) Right) = Some ''a1b2c3d4e''"
  "confidence (stateOf (fst fistHeld) Right) = 9/10"
  unfolding fistHeld_def by (simp_all add: fist_held thirdFist_fields)

lemma fistHeldOn_fields:
  "lastGesture (stateOf (fst fistHeldOn) Right) = Some closed_fist"
  "gestureStartTime (stateOf (fst fistHeldOn) Right) = 1000"
  "gestureId (stateOf (fst fistHeldOn) Right) = Some ''a1b2c3d4e''"
  "confidence (stateOf (fst fistHeldOn) Right) = 9/10"
  unfolding fistHeldOn_def by (simp_all add: fist_held fistHeld_fields)

lemma config_fists:
  "confidenceThreshold thirdFist = 8/10" "gestureHoldTime thirdFist = 150"
  "confidenceThreshold (fst fistHeld) = 8/10" "gestureHoldTime (fst fistHeld) = 150"
  by (simp_all add: fistHeld_def thirdFist_def secondFist_def firstFist_def config_after)

lemma reachable_fists: "reachable firstFist" "reachable thirdFist"
proof -
  have 0: "reachable newInputAbstractionLayer"
    by (rule reachable.fresh) (simp add: newInputAbstractionLayer_def)
  have s: "reachable ial \<Longrightarrow> reachable (fst (processHandGestures ial now rnd
      (observation l t) Right))" for ial now rnd l t
    using reachable.observed [of ial now rnd "observation l t"] by simp
  show "reachable firstFist" unfolding firstFist_def by (intro s 0)
  show "reachable thirdFist" unfolding thirdFist_def secondFist_def firstFist_def by (intro s 0)
qed

text \<open>
  C7, as the code has it. For a layer the program can hold, a hand key and two observations of
  at least 21 landmarks processed one after the other for that key. While the classified type
  stays the same gesture, the stored \<^verbatim>\<open>gestureId\<close> stays as it is; when no gesture is
  classified it becomes null; when the type changes to a gesture it becomes the identifier drawn
  from \<^verbatim>\<open>Math.random\<close> for that frame, which the code does not compare with the stored one.
  So the stored identifier changes if and only if the classified type (no gesture included)
  changes and the new type is no gesture or the drawn identifier differs from the stored one.
  The stored identifier is null exactly when no gesture is classified, and every event emitted
  for a frame carries the type classified for that frame and the identifier stored after it.
\<close>

theorem gestureId_follows_classified_type:
  assumes "reachable ial"
    and "21 \<le> length (landmarks r)" and "21 \<le> length (landmarks r')"
  shows "gestureId (stateOf (fst (processHandGestures
             (fst (processHandGestures ial now rnd r k)) now' rnd' r' k)) k) =
           (case map_option d_type (classified (fst (processHandGestures ial now rnd r k)) r' k) of
              None \<Rightarrow> None
            | Some t \<Rightarrow>
                if map_option d_type (classified ial r k) = Some t
                then gestureId (stateOf (fst (processHandGestures ial now rnd r k)) k)
                else Some rnd')
       \<and> (gestureId (stateOf (fst (processHandGestures
                (fst (processHandGestures ial now rnd r k)) now' rnd' r' k)) k)
            \<noteq> gestureId (stateOf (fst (processHandGestures ial now rnd r k)) k)
          \<longleftrightarrow> map_option d_type (classified (fst (processHandGestures ial now rnd r k)) r' k)
                \<noteq> map_option d_type (classified ial r k)
              \<and> (classified (fst (processHandGestures ial now rnd r k)) r' k = None
                 \<or> gestureId (stateOf (fst (processHandGestures ial now rnd r k)) k) \<noteq> Some rnd'))
       \<and> (classified ial r k = None
          \<longleftrightarrow> gestureId (stateOf (fst (processHandGestures ial now rnd r k)) k) = None)
       \<and> (\<forall>e. snd (processHandGestures ial now rnd r k) = Some e \<longrightarrow>
              ev_id e = eventId (gestureId (stateOf (fst (processHandGestures ial now rnd r k)) k))
              \<and> Some (ev_type e) = map_option d_type (classified ial r k))
       \<and> (\<forall>e'. snd (processHandGestures (fst (processHandGestures ial now rnd r k))
                     now' rnd' r' k) = Some e' \<longrightarrow>
              ev_id e' = eventId (gestureId (stateOf (fst (processHandGestures
                 (fst (processHandGestures ial now rnd r k)) now' rnd' r' k)) k))
              \<and> Some (ev_type e') =
                  map_option d_type (classified (fst (processHandGestures ial now rnd r k)) r' k))"
proof -
  let ?ial1 = "fst (processHandGestures ial now rnd r k)"
  let ?ial2 = "fst (processHandGestures ?ial1 now' rnd' r' k)"
  have inv: "identified ?ial1 k"
    using assms(1) by (intro identified_step reachable_identified)
  have lg: "lastGesture (stateOf ?ial1 k) = map_option d_type (classified ial r k)"
    using assms(2) by (rule lastGesture_after)
  have gid: "gestureId (stateOf ?ial2 k) =
      (case classified ?ial1 r' k of None \<Rightarrow> None
       | Some d \<Rightarrow> if lastGesture (stateOf ?ial1 k) \<noteq> Some (d_type d) then Some rnd'
                   else gestureId (stateOf ?ial1 k))"
    using assms(3) by (rule gestureId_after)
  have a: "gestureId (stateOf ?ial2 k) =
      (case map_option d_type (classified ?ial1 r' k) of
         None \<Rightarrow> None
       | Some t \<Rightarrow> if map_option d_type (classified ial r k) = Some t
                   then gestureId (stateOf ?ial1 k) else Some rnd')"
    unfolding gid lg by (cases "classified ?ial1 r' k") auto
  have c: "classified ial r k = None \<longleftrightarrow> gestureId (stateOf ?ial1 k) = None"
    using inv lg by (simp add: identified_def)
  have b: "gestureId (stateOf ?ial2 k) \<noteq> gestureId (stateOf ?ial1 k)
      \<longleftrightarrow> map_option d_type (classified ?ial1 r' k) \<noteq> map_option d_type (classified ial r k)
        \<and> (classified ?ial1 r' k = None \<or> gestureId (stateOf ?ial1 k) \<noteq> Some rnd')"
    using c unfolding a by (cases "classified ?ial1 r' k"; cases "classified ial r k") auto
  have d: "ev_id e = eventId (gestureId (stateOf ?ial1 k))
      \<and> Some (ev_type e) = map_option d_type (classified ial r k)"
    if "snd (processHandGestures ial now rnd r k) = Some e" for e
    using event_fields(1,2) [OF assms(2) that] by simp
  have e: "ev_id e' = eventId (gestureId (stateOf ?ial2 k))
      \<and> Some (ev_type e') = map_option d_type (classified ?ial1 r' k)"
    if "snd (processHandGestures ?ial1 now' rnd' r' k) = Some e'" for e'
    using event_fields(1,2) [OF assms(3) that] by simp
  show ?thesis
    using a b c d e by blast
qed


theorem gestureId_follows_classified_type_witness:
  "reachable thirdFist
   \<and> 21 \<le> length (landmarks (observation (handAt 0.5 0.5) 1160))
   \<and> 21 \<le> length (landmarks (observation (handAt 0.5 0.5) 1200))
   \<and> map_option ev_type (snd fistHeld) = Some closed_fist
   \<and> map_option ev_type (snd fistHeldOn) = Some closed_fist
   \<and> map_option ev_id (snd fistHeld) = Some (Some ''a1b2c3d4e'')
   \<and> map_option ev_id (snd fistHeldOn) = Some (Some ''a1b2c3d4e'')
   \<and> gestureId (stateOf (fst fistHeld) Right) = Some ''a1b2c3d4e''
   \<and> gestureId (stateOf (fst fistHeldOn) Right) = Some ''a1b2c3d4e''
   \<and> reachable newInputAbstractionLayer
   \<and> gestureId (stateOf firstFist Right) = Some ''a1b2c3d4e''
   \<and> gestureId (stateOf fistOpened Right) = Some ''f5g6h7i8j''"
proof -
  have l: "21 \<le> length (landmarks (observation (handAt 0.5 0.5) t))" for t by simp
  have l': "21 \<le> length (landmarks (observation openHand 1040))" by simp
  have 0: "reachable newInputAbstractionLayer"
    by (rule reachable.fresh) (simp add: newInputAbstractionLayer_def)
  have c: "classified ial (observation (handAt a b) t) k = Some (Detected closed_fist (9/10) None)"
    for ial a b t k
    by (simp add: classified_def detect_handAt)
  have c': "classified ial (observation openHand t) k = Some (Detected open_palm (9/10) None)"
    for ial t k
    by (simp add: classified_def detect_openHand)
  note held = gestureId_follows_classified_type [OF reachable_fists(2) l [of 1160] l [of 1200],
      where now = 1160 and rnd = "''p3q4r5s6t''" and k = Right and now' = 1200
        and rnd' = "''u7v8w9x0y''",
      folded fistHeld_def, folded fistHeldOn_def]
  have "snd fistHeld \<noteq> None"
    using gate_iff [OF l [of 1160], where ial = thirdFist and now = 1160
        and rnd = "''p3q4r5s6t''" and k = Right, folded fistHeld_def]
    by (simp add: fistHeld_fields config_fists)
  then obtain e where e: "snd fistHeld = Some e" by blast
  have "snd fistHeldOn \<noteq> None"
    using gate_iff [OF l [of 1200], where ial = "fst fistHeld" and now = 1200
        and rnd = "''u7v8w9x0y''" and k = Right, folded fistHeldOn_def]
    by (simp add: fistHeldOn_fields config_fists)
  then obtain e' where e': "snd fistHeldOn = Some e'" by blast
  have i: "gestureId (stateOf (fst fistHeldOn) Right) = gestureId (stateOf (fst fistHeld) Right)"
    using held by (simp add: c)
  have g: "gestureId (stateOf (fst fistHeld) Right) = Some ''a1b2c3d4e''"
    by (rule fistHeld_fields)
  have ev: "ev_id e = Some ''a1b2c3d4e''" "ev_type e = closed_fist"
    using held e by (simp_all add: c g eventId_def)
  have ev': "ev_id e' = Some ''a1b2c3d4e''" "ev_type e' = closed_fist"
    using held e' by (simp_all add: c i g eventId_def)
  note opened = gestureId_follows_classified_type [OF 0 l [of 1000] l',
      where now = 1000 and rnd = "''a1b2c3d4e''" and k = Right and now' = 1040
        and rnd' = "''f5g6h7i8j''",
      folded firstFist_def, folded fistOpened_def]
  have o: "gestureId (stateOf fistOpened Right) = Some ''f5g6h7i8j''"
    using opened by (simp add: c c')
  show ?thesis
    using reachable_fists(2) 0 l e e' ev ev' i g o firstFist_fields(3) by simp
qed

text \<open>
  The claim as it is written fails when the two draws coincide: the fist becomes an open palm,
  the classified type changes, and the stored identifier is the same string as before.
\<close>

theorem gestureId_collision_counterexample:
  "classified newInputAbstractionLayer (observation (handAt 0.5 0.5) 1000) Right
     = Some (Detected closed_fist (9/10) None)
   \<and> classified firstFist (observation openHand 1040) Right
     = Some (Detected open_palm (9/10) None)
   \<and> gestureId (stateOf firstFist Right) = Some ''a1b2c3d4e''
   \<and> gestureId (stateOf fistOpenedSameDraw Right) = Some ''a1b2c3d4e''
   \<and> gestureId (stateOf fistOpenedSameDraw Right) = gestureId (stateOf firstFist Right)"
  by (simp add: classified_def detect_handAt detect_openHand firstFist_fields
      fistOpenedSameDraw_def gestureId_after)


section \<open>The mapper's policies\<close>

lemma newGestureMapper_fields:
  "map snd (policies (newGestureMapper cfg)) = [ConfidencePolicy, RateLimitPolicy, ContextPolicy]"
  "defaultConfidenceThreshold (newGestureMapper cfg) = (case cfg of None \<Rightarrow> 0.8 | Some t \<Rightarrow> t)"
  "lastActionTimes (newGestureMapper cfg) = Map.empty"
  "mappings (newGestureMapper cfg) pinch = Some (mkMapping pinch ''drag'' (Some True) None (Some 80))"
  by (simp_all add: newGestureMapper_def setupDefaultPolicies_def setupDefaultMappings_def
      defaultMappings_def mkMapping_def)

lemma confidencePolicy_iff:
  "confidencePolicy gm event \<longleftrightarrow>
     ev_confidence event \<ge>
       (case mappings gm (ev_type event) of
          None \<Rightarrow> defaultConfidenceThreshold gm
        | Some m \<Rightarrow> (case mp_confidenceThreshold m of
                       None \<Rightarrow> defaultConfidenceThreshold gm
                     | Some t \<Rightarrow> if t = 0 then defaultConfidenceThreshold gm else t))"
  by (simp add: confidencePolicy_def jsOr_def split: option.splits)

lemma processGesture_default:
  assumes "map snd (policies gm) = [ConfidencePolicy, RateLimitPolicy, ContextPolicy]"
    and "mappings gm (ev_type event) = Some m"
  shows "processGesture gm now event =
     (snd (rateLimitPolicy gm now event),
      if confidencePolicy gm event \<and> fst (rateLimitPolicy gm now event)
      then Some (action m, event) else None)"
  using assms
  by (simp add: processGesture_def Let_def rateLimitPolicy_def contextPolicy_def
      confidencePolicy_def split: prod.splits)

lemma pinchEvent_simps:
  "ev_type (pinchEvent c t) = pinch" "ev_confidence (pinchEvent c t) = c"
  by (simp_all add: pinchEvent_def)

text \<open>
  C8. The claim: the confidence policy compares the event's confidence with the mapping's
  \<^verbatim>\<open>confidenceThreshold\<close> when present, so a mapping threshold of 0 admits every event.
  The code joins the two thresholds with \<^verbatim>\<open>||\<close>, for which 0 is absent: with the pinch
  mapping's threshold set to 0 and the default threshold 0.8, a pinch event of confidence 0.5
  is rejected by the confidence policy and nothing is dispatched.
\<close>

theorem zero_mapping_threshold_falls_back:
  "mappings pinchThresholdZero pinch =
     Some ((mkMapping pinch ''drag'' (Some True) None (Some 80))\<lparr>mp_confidenceThreshold := Some 0\<rparr>)
   \<and> defaultConfidenceThreshold pinchThresholdZero = 0.8
   \<and> ev_confidence (pinchEvent (1/2) 1000) \<ge> 0
   \<and> confidencePolicy pinchThresholdZero (pinchEvent (1/2) 1000) = False
   \<and> snd (processGesture pinchThresholdZero 1000 (pinchEvent (1/2) 1000)) = None"
  by (simp add: pinchThresholdZero_def addMapping_def newGestureMapper_fields confidencePolicy_def
      jsOr_def mkMapping_def pinchEvent_def processGesture_def rateLimitPolicy_def contextPolicy_def
      Let_def)

text \<open>
  C10. Under the default policies (confidence, rate limit, context, all evaluated on every
  mapped event), an event that the confidence policy rejects while the 200 ms gap is met is not
  dispatched, yet its time is recorded as the last action time of its gesture type; an event of
  the same type less than 200 ms later is then rejected by the rate limit and not dispatched,
  whatever its confidence.
\<close>

theorem rejected_event_advances_rate_limit:
  assumes pol: "map snd (policies gm) = [ConfidencePolicy, RateLimitPolicy, ContextPolicy]"
    and mapped: "mappings gm (ev_type e) = Some m"
    and low: "\<not> confidencePolicy gm e"
    and gap: "now - jsOr (lastActionTimes gm (ev_type e)) 0 \<ge> 200"
    and same: "ev_type e' = ev_type e"
    and soon: "now' - now < 200"
  shows "snd (processGesture gm now e) = None
       \<and> lastActionTimes (fst (processGesture gm now e)) (ev_type e) = Some now
       \<and> fst (rateLimitPolicy (fst (processGesture gm now e)) now' e') = False
       \<and> snd (processGesture (fst (processGesture gm now e)) now' e') = None"
proof -
  let ?gm = "fst (processGesture gm now e)"
  have p: "processGesture gm now e =
      (gm\<lparr>lastActionTimes := (lastActionTimes gm)(ev_type e \<mapsto> now)\<rparr>, None)"
    using low gap by (simp add: processGesture_default [OF pol mapped] rateLimitPolicy_def Let_def)
  have pol': "map snd (policies ?gm) = [ConfidencePolicy, RateLimitPolicy, ContextPolicy]"
    and mapped': "mappings ?gm (ev_type e') = Some m"
    using pol mapped same by (simp_all add: p)
  have rl: "fst (rateLimitPolicy ?gm now' e') = False"
    using soon same by (simp add: p rateLimitPolicy_def jsOr_def)
  show ?thesis
    using rl by (simp add: processGesture_default [OF pol' mapped']) (simp add: p)
qed


theorem rejected_event_advances_rate_limit_witness:
  "map snd (policies (newGestureMapper None)) = [ConfidencePolicy, RateLimitPolicy, ContextPolicy]
   \<and> mappings (newGestureMapper None) (ev_type (pinchEvent (1/2) 1000))
       = Some (mkMapping pinch ''drag'' (Some True) None (Some 80))
   \<and> \<not> confidencePolicy (newGestureMapper None) (pinchEvent (1/2) 1000)
   \<and> (1000::int) - jsOr (lastActionTimes (newGestureMapper None) (ev_type (pinchEvent (1/2) 1000))) 0 \<ge> 200
   \<and> ev_type (pinchEvent (9/10) 1100) = ev_type (pinchEvent (1/2) 1000)
   \<and> (1100::int) - 1000 < 200
   \<and> confidencePolicy (fst (processGesture (newGestureMapper None) 1000 (pinchEvent (1/2) 1000)))
        (pinchEvent (9/10) 1100)
   \<and> snd (processGesture (fst (processGesture (newGestureMapper None) 1000 (pinchEvent (1/2) 1000)))
        1100 (pinchEvent (9/10) 1100)) = None
   \<and> snd (processGesture (newGestureMapper None) 1100 (pinchEvent (9/10) 1100))
       = Some (''drag'', pinchEvent (9/10) 1100)"
proof -
  have pol: "map snd (policies (newGestureMapper None))
      = [ConfidencePolicy, RateLimitPolicy, ContextPolicy]"
    by (simp add: newGestureMapper_fields)
  note t = pinchEvent_simps
  have mapped: "mappings (newGestureMapper None) (ev_type (pinchEvent (1/2) 1000))
      = Some (mkMapping pinch ''drag'' (Some True) None (Some 80))"
    by (simp add: t newGestureMapper_fields)
  have mapped': "mappings (newGestureMapper None) (ev_type (pinchEvent (9/10) 1100))
      = Some (mkMapping pinch ''drag'' (Some True) None (Some 80))"
    by (simp add: t newGestureMapper_fields)
  have low: "\<not> confidencePolicy (newGestureMapper None) (pinchEvent (1/2) 1000)"
    by (simp add: confidencePolicy_iff t newGestureMapper_fields mkMapping_def)
  have gap: "(1000::int) - jsOr (lastActionTimes (newGestureMapper None)
      (ev_type (pinchEvent (1/2) 1000))) 0 \<ge> 200"
    by (simp add: newGestureMapper_fields jsOr_def)
  have same: "ev_type (pinchEvent (9/10) 1100) = ev_type (pinchEvent (1/2) 1000)"
    by (simp add: t)
  have soon: "(1100::int) - 1000 < 200" by simp
  have p: "processGesture (newGestureMapper None) 1000 (pinchEvent (1/2) 1000) =
      ((newGestureMapper None)\<lparr>lastActionTimes := Map.empty(pinch \<mapsto> 1000)\<rparr>, None)"
    using low
    by (simp add: processGesture_default [OF pol mapped] rateLimitPolicy_def Let_def jsOr_def
        newGestureMapper_fields t)
  have high: "confidencePolicy (fst (processGesture (newGestureMapper None) 1000
      (pinchEvent (1/2) 1000))) (pinchEvent (9/10) 1100)"
    by (simp add: p confidencePolicy_iff t newGestureMapper_fields mkMapping_def)
  have direct: "snd (processGesture (newGestureMapper None) 1100 (pinchEvent (9/10) 1100))
      = Some (''drag'', pinchEvent (9/10) 1100)"
    by (simp add: processGesture_default [OF pol mapped'] rateLimitPolicy_def Let_def jsOr_def
        newGestureMapper_fields t confidencePolicy_iff mkMapping_def)
  show ?thesis
    using rejected_event_advances_rate_limit [OF pol mapped low gap same soon] pol mapped low gap same soon high direct
    by blast
qed

section \<open>Subscriber faults\<close>

lemma forEachFrom_quiet:
  assumes "k + n \<le> length callbacks"
    and "\<forall>j. k \<le> j \<and> j < k + n \<longrightarrow>
           (\<forall>cbs w. run (callbacks ! j) a (cbs, w) = Returned (cbs, effect (callbacks ! j) w))"
  shows "forEachFrom run n k a (callbacks, w) =
           Returned (callbacks, fold effect (take n (drop k callbacks)) w)"
  using assms
proof (induction n arbitrary: k w)
  case 0
  then show ?case by simp
next
  case (Suc n)
  then have k: "k < length callbacks" by simp
  have r: "run (callbacks ! k) a (callbacks, w) = Returned (callbacks, effect (callbacks ! k) w)"
    using Suc.prems(2) by simp
  have t: "take (Suc n) (drop k callbacks) = callbacks ! k # take n (drop (Suc k) callbacks)"
    using k by (simp add: Cons_nth_drop_Suc [symmetric])
  have "forEachFrom run n (Suc k) a (callbacks, effect (callbacks ! k) w) =
      Returned (callbacks, fold effect (take n (drop (Suc k) callbacks)) (effect (callbacks ! k) w))"
    using Suc.prems by (intro Suc.IH) auto
  then show ?case
    using k by (simp add: r t)
qed

lemma forEachFrom_add:
  "forEachFrom run (i + m) k a s =
     (case forEachFrom run i k a s of
        Returned s' \<Rightarrow> forEachFrom run m (k + i) a s'
      | Threw e s' \<Rightarrow> Threw e s')"
proof (induction i arbitrary: k s)
  case 0
  then show ?case by simp
next
  case (Suc i)
  obtain callbacks w where s: "s = (callbacks, w)" by (cases s)
  show ?case
    by (simp add: s Suc.IH split: outcome.splits)
qed

lemma forEach_quiet:
  assumes "\<forall>c \<in> set callbacks. \<forall>cbs w. run c a (cbs, w) = Returned (cbs, effect c w)"
  shows "forEach run a (callbacks, w) = Returned (callbacks, fold effect callbacks w)"
  using forEachFrom_quiet [of 0 "length callbacks" callbacks run a effect w] assms
  by (simp add: forEach_def)

lemma forEach_fault:
  assumes "\<forall>c \<in> set before. \<forall>cbs w. run c a (cbs, w) = Returned (cbs, effect c w)"
    and "run callback a (before @ callback # rest, fold effect before w) = Threw e s"
  shows "forEach run a (before @ callback # rest, w) = Threw e s"
proof -
  let ?cbs = "before @ callback # rest"
  have q: "forEachFrom run (length before) 0 a (?cbs, w) = Returned (?cbs, fold effect before w)"
    using forEachFrom_quiet [of 0 "length before" ?cbs run a effect w] assms(1)
    by (simp add: nth_append)
  have "forEach run a (?cbs, w) = forEachFrom run (length before + Suc (length rest)) 0 a (?cbs, w)"
    by (simp add: forEach_def)
  also have "\<dots> = forEachFrom run (Suc (length rest)) (length before) a (?cbs, fold effect before w)"
    by (simp only: forEachFrom_add q) simp
  also have "\<dots> = Threw e s"
    using assms(2) by simp
  finally show ?thesis .
qed

text \<open>
  The dispatch runs over the live array: a subscriber that calls its disposer while it is being
  called shortens the array, and the subscriber registered after it is passed over.
\<close>

lemma leaving_subscriber_skips_next:
  "emitAction exampleRun [Leaving 1, Recording 2, Recording 3] ''drag'' (pinchEvent (9/10) 1150) []
     = Returned ([Recording 2, Recording 3],
                 [(Leaving 1, (''drag'', pinchEvent (9/10) 1150)),
                  (Recording 3, (''drag'', pinchEvent (9/10) 1150))])"
  by (simp add: emitAction_def forEach_def disposer_def)

text \<open>
  C1, as the code has it. \<^verbatim>\<open>emitAction\<close> and \<^verbatim>\<open>emitGestureEvent\<close> call the subscribers in
  registration order with the same arguments and have no try block. When the subscribers before
  one return and leave the array as it is, and that one throws, the dispatch ends with its
  exception, in the state it left, whatever is registered after it: the remaining subscribers
  are not called and the exception leaves the dispatch. When every subscriber returns and leaves
  the array as it is, every subscriber is called.
\<close>

theorem dispatch_stops_at_first_fault:
  "((\<forall>c \<in> set before. \<forall>cbs w. run c (act, event) (cbs, w) = Returned (cbs, effect c w))
      \<and> run callback (act, event) (before @ callback # rest, fold effect before w) = Threw e s
      \<longrightarrow> emitAction run (before @ callback # rest) act event w = Threw e s)
   \<and> ((\<forall>c \<in> set before'. \<forall>cbs v. run' c event (cbs, v) = Returned (cbs, effect' c v))
      \<and> run' callback' event (before' @ callback' # rest', fold effect' before' v) = Threw e' s'
      \<longrightarrow> emitGestureEvent run' (before' @ callback' # rest') event v = Threw e' s')
   \<and> ((\<forall>c \<in> set callbacks. \<forall>cbs w. run c (act, event) (cbs, w) = Returned (cbs, effect c w))
      \<longrightarrow> emitAction run callbacks act event w = Returned (callbacks, fold effect callbacks w))
   \<and> ((\<forall>c \<in> set callbacks'. \<forall>cbs v. run' c event (cbs, v) = Returned (cbs, effect' c v))
      \<longrightarrow> emitGestureEvent run' callbacks' event v
            = Returned (callbacks', fold effect' callbacks' v))"
  unfolding emitAction_def emitGestureEvent_def
  by (intro conjI impI forEach_fault forEach_quiet) (erule conjunct1 conjunct2 | assumption)+

theorem dispatch_stops_at_first_fault_witness:
  "exampleRun Throwing (''drag'', pinchEvent (9/10) 1150)
       ([Recording 1] @ Throwing # [Recording 2, Recording 3],
        [(Recording 1, (''drag'', pinchEvent (9/10) 1150))])
     = Threw ''subscriber failed''
         ([Recording 1, Throwing, Recording 2, Recording 3],
          [(Recording 1, (''drag'', pinchEvent (9/10) 1150))])
   \<and> emitAction exampleRun ([Recording 1] @ Throwing # [Recording 2, Recording 3]) ''drag''
        (pinchEvent (9/10) 1150) []
     = Threw ''subscriber failed''
         ([Recording 1, Throwing, Recording 2, Recording 3],
          [(Recording 1, (''drag'', pinchEvent (9/10) 1150))])
   \<and> emitGestureEvent exampleRun ([Recording 1] @ Throwing # [Recording 2])
        (pinchEvent (9/10) 1150) []
     = Threw ''subscriber failed''
         ([Recording 1, Throwing, Recording 2], [(Recording 1, pinchEvent (9/10) 1150)])
   \<and> emitAction exampleRun [Recording 1, Recording 2] ''drag'' (pinchEvent (9/10) 1150) []
     = Returned ([Recording 1, Recording 2],
                 [(Recording 1, (''drag'', pinchEvent (9/10) 1150)),
                  (Recording 2, (''drag'', pinchEvent (9/10) 1150))])
   \<and> emitGestureEvent exampleRun [Recording 1, Recording 2] (pinchEvent (9/10) 1150) []
     = Returned ([Recording 1, Recording 2],
                 [(Recording 1, pinchEvent (9/10) 1150), (Recording 2, pinchEvent (9/10) 1150)])"
proof -
  let ?a = "(''drag'', pinchEvent (9/10) 1150)"
  let ?ev = "pinchEvent (9/10) 1150"
  have q: "\<forall>c \<in> set [Recording i]. \<forall>cbs w. exampleRun c a (cbs, w)
      = Returned (cbs, (\<lambda>c calls. calls @ [(c, a)]) c w)" for i and a :: 'x
    by simp
  have q2: "\<forall>c \<in> set [Recording i, Recording j]. \<forall>cbs w. exampleRun c a (cbs, w)
      = Returned (cbs, (\<lambda>c calls. calls @ [(c, a)]) c w)" for i j and a :: 'x
    by simp
  have t: "exampleRun Throwing ?a ([Recording 1] @ Throwing # [Recording 2, Recording 3],
        fold (\<lambda>c calls. calls @ [(c, ?a)]) [Recording 1] [])
      = Threw ''subscriber failed''
          ([Recording 1, Throwing, Recording 2, Recording 3], [(Recording 1, ?a)])"
    by simp
  have t': "exampleRun Throwing ?ev ([Recording 1] @ Throwing # [Recording 2],
        fold (\<lambda>c calls. calls @ [(c, ?ev)]) [Recording 1] [])
      = Threw ''subscriber failed'' ([Recording 1, Throwing, Recording 2], [(Recording 1, ?ev)])"
    by simp
  note d = dispatch_stops_at_first_fault
    [where run = exampleRun and act = "''drag''" and event = ?ev and w = "[]" and v = "[]"
      and before = "[Recording 1]" and callback = Throwing and rest = "[Recording 2, Recording 3]"
      and effect = "\<lambda>c calls. calls @ [(c, ?a)]"
      and e = "''subscriber failed''"
      and s = "([Recording 1, Throwing, Recording 2, Recording 3], [(Recording 1, ?a)])"
      and run' = exampleRun and before' = "[Recording 1]" and callback' = Throwing
      and rest' = "[Recording 2]" and effect' = "\<lambda>c calls. calls @ [(c, ?ev)]"
      and e' = "''subscriber failed''"
      and s' = "([Recording 1, Throwing, Recording 2], [(Recording 1, ?ev)])"
      and callbacks = "[Recording 1, Recording 2]" and callbacks' = "[Recording 1, Recording 2]"]
  have 1: "emitAction exampleRun ([Recording 1] @ Throwing # [Recording 2, Recording 3]) ''drag''
      ?ev [] = Threw ''subscriber failed''
        ([Recording 1, Throwing, Recording 2, Recording 3], [(Recording 1, ?a)])"
    using d [THEN conjunct1] q [of 1 ?a] t by blast
  have 2: "emitGestureEvent exampleRun ([Recording 1] @ Throwing # [Recording 2]) ?ev []
      = Threw ''subscriber failed'' ([Recording 1, Throwing, Recording 2], [(Recording 1, ?ev)])"
    using d [THEN conjunct2, THEN conjunct1] q [of 1 ?ev] t' by blast
  have 3: "emitAction exampleRun [Recording 1, Recording 2] ''drag'' ?ev []
      = Returned ([Recording 1, Recording 2],
          fold (\<lambda>c calls. calls @ [(c, ?a)]) [Recording 1, Recording 2] [])"
    using d [THEN conjunct2, THEN conjunct2, THEN conjunct1] q2 [of 1 2 ?a] by blast
  have 4: "emitGestureEvent exampleRun [Recording 1, Recording 2] ?ev []
      = Returned ([Recording 1, Recording 2],
          fold (\<lambda>c calls. calls @ [(c, ?ev)]) [Recording 1, Recording 2] [])"
    using d [THEN conjunct2, THEN conjunct2, THEN conjunct2] q2 [of 1 2 ?ev] by blast
  show ?thesis
    using 1 2 3 4 by simp
qed

text \<open>
  The claim as it is written fails for three subscribers whose second throws: the first is
  called, the third never is, and the exception leaves \<^verbatim>\<open>emitAction\<close> and
  \<^verbatim>\<open>emitGestureEvent\<close>.
\<close>

theorem subscriber_fault_aborts_dispatch_counterexample:
  "emitAction exampleRun [Recording 1, Throwing, Recording 2] ''drag'' (pinchEvent (9/10) 1150) []
     = Threw ''subscriber failed''
         ([Recording 1, Throwing, Recording 2], [(Recording 1, (''drag'', pinchEvent (9/10) 1150))])
   \<and> emitGestureEvent exampleRun [Recording 1, Throwing, Recording 2] (pinchEvent (9/10) 1150) []
     = Threw ''subscriber failed''
         ([Recording 1, Throwing, Recording 2], [(Recording 1, pinchEvent (9/10) 1150)])"
  by (simp add: emitAction_def emitGestureEvent_def forEach_def)


section \<open>Drag sessions\<close>

lemma getWindow_updateWindow:
  "getWindow (updateWindow store wid f) wid' =
     (if wid' = wid then map_option f (getWindow store wid) else getWindow store wid')"
  if "\<And>w. w_id (f w) = w_id w"
proof -
  have "find (\<lambda>w. w_id w = wid') (map (\<lambda>w. if w_id w = wid then f w else w) ws) =
      (if wid' = wid then map_option f (find (\<lambda>w. w_id w = wid) ws)
       else find (\<lambda>w. w_id w = wid') ws)" for ws
    by (induction ws) (auto simp add: that)
  then show ?thesis by (simp add: getWindow_def updateWindow_def)
qed

lemma getWindow_updateWindowPosition:
  "getWindow (updateWindowPosition store vp wid pos) wid =
     map_option (\<lambda>w. w\<lparr>w_position := constrain vp pos\<rparr>) (getWindow store wid)"
  by (simp add: updateWindowPosition_def getWindow_updateWindow)

lemma handleDragGesture_continuing:
  assumes "continuing wm event" and "windowId (dragState wm) = Some wid"
  shows "handleDragGesture wm store vp now event =
     (wm\<lparr>dragTimeout := Some (now + 200)\<rparr>,
      updateWindowPosition store vp wid
        (delta (screenPosition vp event) (offset (dragState wm))))"
  using assms by (simp add: handleDragGesture_def Let_def delta_def)

lemma handleDragGesture_new:
  assumes "\<not> continuing wm event" and "focusedWindowId store = Some wid" and "wid \<noteq> []"
    and "getWindow store wid = Some w"
  shows "handleDragGesture wm store vp now event =
     (wm\<lparr>dragTimeout := Some (now + 200),
         dragState := \<lparr>isDragging = True, windowId = Some wid,
                       startPosition = screenPosition vp event,
                       offset = delta (screenPosition vp event) (w_position w),
                       gestureSequenceId = ev_id event\<rparr>\<rparr>, store)"
  using assms by (simp add: handleDragGesture_def Let_def delta_def truthy_def)

lemma handleDragGesture_noop:
  assumes "\<not> continuing wm event"
    and "\<not> truthy (focusedWindowId store)
         \<or> (\<exists>wid. focusedWindowId store = Some wid \<and> getWindow store wid = None)"
  shows "handleDragGesture wm store vp now event = (wm\<lparr>dragTimeout := Some (now + 200)\<rparr>, store)"
  using assms by (auto simp add: handleDragGesture_def Let_def split: option.splits)

lemma dragEvent_simps [simp]:
  "ev_id (dragEvent gid px py) = Some gid"
  "screenPosition display (dragEvent gid px py) = \<lparr>vx = px * 1000, vy = py * 800\<rparr>"
  by (simp_all add: dragEvent_def screenPosition_def display_def)

lemma getWindow_desk: "getWindow desk ''window-1'' = Some (hd (windows desk))"
  "w_position (hd (windows desk)) = \<lparr>vx = 100, vy = 100\<rparr>"
  "focusedWindowId desk = Some ''window-1''"
  by (simp_all add: getWindow_def desk_def)

lemma dragStarted_eq:
  "dragStarted =
     (newWindowManager\<lparr>dragTimeout := Some 1200,
        dragState := \<lparr>isDragging = True, windowId = Some ''window-1'',
                      startPosition = \<lparr>vx = 200, vy = 200\<rparr>, offset = \<lparr>vx = 100, vy = 100\<rparr>,
                      gestureSequenceId = Some ''a1b2c3d4e''\<rparr>\<rparr>, desk)"
proof -
  have n: "\<not> continuing newWindowManager (dragEvent ''a1b2c3d4e'' (1/5) (1/4))"
    by (simp add: continuing_def newWindowManager_def idleDragState_def)
  show ?thesis
    unfolding dragStarted_def
    by (simp add: handleDragGesture_new [OF n getWindow_desk(3) _ getWindow_desk(1)]
        getWindow_desk delta_def)
qed

lemma constrain_display:
  "constrain display p = \<lparr>vx = max 0 (min (vx p) 800), vy = max 0 (min (vy p) 750)\<rparr>"
  by (simp add: constrain_def display_def)

lemma setFocusedWindow_None [simp]: "focusedWindowId (setFocusedWindow store None) = None"
  by (simp add: setFocusedWindow_def)

text \<open>
  C5, as the code has it. While a drag session continues (the events carry the session's
  gesture identifier), the drag state, and with it the anchor offset, stays as it is, and after
  each event the dragged window stands at the cursor's screen position minus the anchor offset,
  constrained to the viewport (x between 0 and the width minus 200, y between 0 and the height
  minus 50). So the window's displacement between two successive events equals the cursor's
  whenever neither target position is constrained.
\<close>

theorem continuing_drag_follows_cursor:
  assumes "continuing wm e" and "ev_id e' = ev_id e"
    and "windowId (dragState wm) = Some wid" and "getWindow store wid = Some w"
  shows "dragState (fst (handleDragGesture wm store vp now e)) = dragState wm
       \<and> dragState (fst (handleDragGesture (fst (handleDragGesture wm store vp now e))
            (snd (handleDragGesture wm store vp now e)) vp now' e')) = dragState wm
       \<and> map_option w_position (getWindow (snd (handleDragGesture wm store vp now e)) wid) =
           Some (constrain vp (delta (screenPosition vp e) (offset (dragState wm))))
       \<and> map_option w_position (getWindow (snd (handleDragGesture
            (fst (handleDragGesture wm store vp now e))
            (snd (handleDragGesture wm store vp now e)) vp now' e')) wid) =
           Some (constrain vp (delta (screenPosition vp e') (offset (dragState wm))))
       \<and> (constrain vp (delta (screenPosition vp e) (offset (dragState wm)))
             = delta (screenPosition vp e) (offset (dragState wm))
          \<and> constrain vp (delta (screenPosition vp e') (offset (dragState wm)))
             = delta (screenPosition vp e') (offset (dragState wm))
          \<longrightarrow> (\<exists>p p'. map_option w_position (getWindow (snd (handleDragGesture wm store vp now e)) wid)
                        = Some p
                    \<and> map_option w_position (getWindow (snd (handleDragGesture
                         (fst (handleDragGesture wm store vp now e))
                         (snd (handleDragGesture wm store vp now e)) vp now' e')) wid) = Some p'
                    \<and> delta p' p = delta (screenPosition vp e') (screenPosition vp e)))"
proof -
  let ?wm1 = "fst (handleDragGesture wm store vp now e)"
  let ?st1 = "snd (handleDragGesture wm store vp now e)"
  have h1: "handleDragGesture wm store vp now e =
      (wm\<lparr>dragTimeout := Some (now + 200)\<rparr>,
       updateWindowPosition store vp wid (delta (screenPosition vp e) (offset (dragState wm))))"
    using assms(1,3) by (rule handleDragGesture_continuing)
  have c': "continuing ?wm1 e'" and w': "windowId (dragState ?wm1) = Some wid"
    using assms(1,2,3) by (simp_all add: h1 continuing_def)
  have h2: "handleDragGesture ?wm1 ?st1 vp now' e' =
      (?wm1\<lparr>dragTimeout := Some (now' + 200)\<rparr>,
       updateWindowPosition ?st1 vp wid (delta (screenPosition vp e') (offset (dragState ?wm1))))"
    using c' w' by (rule handleDragGesture_continuing)
  have d1: "dragState ?wm1 = dragState wm" by (simp add: h1)
  have d2: "dragState (fst (handleDragGesture ?wm1 ?st1 vp now' e')) = dragState wm"
    by (simp add: h2 d1)
  have p1: "map_option w_position (getWindow ?st1 wid) =
      Some (constrain vp (delta (screenPosition vp e) (offset (dragState wm))))"
    using assms(4) by (simp add: h1 getWindow_updateWindowPosition)
  have p2: "map_option w_position (getWindow (snd (handleDragGesture ?wm1 ?st1 vp now' e')) wid) =
      Some (constrain vp (delta (screenPosition vp e') (offset (dragState wm))))"
    using assms(4) by (simp add: h2 d1 getWindow_updateWindowPosition) (simp add: h1 getWindow_updateWindowPosition)
  have dd: "delta (delta a c) (delta b c) = delta a b" for a b c
    by (simp add: delta_def)
  show ?thesis
    unfolding d1 d2 p1 p2 by (simp add: dd)
qed

theorem continuing_drag_follows_cursor_witness:
  "continuing (fst dragStarted) (dragEvent ''a1b2c3d4e'' (3/10) (1/4))
   \<and> ev_id (dragEvent ''a1b2c3d4e'' (2/5) (1/2)) = ev_id (dragEvent ''a1b2c3d4e'' (3/10) (1/4))
   \<and> windowId (dragState (fst dragStarted)) = Some ''window-1''
   \<and> offset (dragState (fst dragStarted)) = \<lparr>vx = 100, vy = 100\<rparr>
   \<and> offset (dragState (fst draggedDown)) = \<lparr>vx = 100, vy = 100\<rparr>
   \<and> map_option w_position (getWindow (snd draggedLeft) ''window-1'') = Some \<lparr>vx = 200, vy = 100\<rparr>
   \<and> map_option w_position (getWindow (snd draggedDown) ''window-1'') = Some \<lparr>vx = 300, vy = 300\<rparr>
   \<and> delta (screenPosition display (dragEvent ''a1b2c3d4e'' (2/5) (1/2)))
        (screenPosition display (dragEvent ''a1b2c3d4e'' (3/10) (1/4))) = \<lparr>vx = 100, vy = 200\<rparr>"
proof -
  have c: "continuing (fst dragStarted) (dragEvent ''a1b2c3d4e'' (3/10) (1/4))"
    by (simp add: dragStarted_eq continuing_def truthy_def)
  have i: "ev_id (dragEvent ''a1b2c3d4e'' (2/5) (1/2)) = ev_id (dragEvent ''a1b2c3d4e'' (3/10) (1/4))"
    by simp
  have w: "windowId (dragState (fst dragStarted)) = Some ''window-1''"
    and o: "offset (dragState (fst dragStarted)) = \<lparr>vx = 100, vy = 100\<rparr>"
    by (simp_all add: dragStarted_eq)
  have g: "getWindow (snd dragStarted) ''window-1'' = Some (hd (windows desk))"
    by (simp add: dragStarted_eq getWindow_desk)
  note t = continuing_drag_follows_cursor [OF c i w g, of display 1040 1080, folded draggedLeft_def, folded draggedDown_def]
  show ?thesis
    using t c w o by (simp add: delta_def constrain_display)
qed

text \<open>
  The claim as it is written fails at the right edge of the viewport: the cursor moves 50 pixels
  to the right between two events of the session while the window stays at x = 800, the anchor
  offset being unchanged.
\<close>

theorem clamped_drag_counterexample:
  "continuing (fst dragStarted) (dragEvent ''a1b2c3d4e'' (19/20) (1/4))
   \<and> continuing (fst draggedRight) (dragEvent ''a1b2c3d4e'' 1 (1/4))
   \<and> map_option w_position (getWindow (snd draggedRight) ''window-1'') = Some \<lparr>vx = 800, vy = 100\<rparr>
   \<and> map_option w_position (getWindow (snd draggedFurther) ''window-1'') = Some \<lparr>vx = 800, vy = 100\<rparr>
   \<and> delta (screenPosition display (dragEvent ''a1b2c3d4e'' 1 (1/4)))
        (screenPosition display (dragEvent ''a1b2c3d4e'' (19/20) (1/4))) = \<lparr>vx = 50, vy = 0\<rparr>
   \<and> offset (dragState (fst draggedFurther)) = offset (dragState (fst dragStarted))"
proof -
  have c: "continuing (fst dragStarted) (dragEvent ''a1b2c3d4e'' (19/20) (1/4))"
    by (simp add: dragStarted_eq continuing_def truthy_def)
  have w: "windowId (dragState (fst dragStarted)) = Some ''window-1''"
    by (simp add: dragStarted_eq)
  have r: "draggedRight =
      ((fst dragStarted)\<lparr>dragTimeout := Some 1240\<rparr>,
       updateWindowPosition desk display ''window-1'' \<lparr>vx = 850, vy = 100\<rparr>)"
    unfolding draggedRight_def
    by (simp add: handleDragGesture_continuing [OF c w] delta_def) (simp add: dragStarted_eq)
  have c': "continuing (fst draggedRight) (dragEvent ''a1b2c3d4e'' 1 (1/4))"
    by (simp add: r dragStarted_eq continuing_def truthy_def)
  have w': "windowId (dragState (fst draggedRight)) = Some ''window-1''"
    by (simp add: r dragStarted_eq)
  have f: "draggedFurther =
      ((fst draggedRight)\<lparr>dragTimeout := Some 1280\<rparr>,
       updateWindowPosition (snd draggedRight) display ''window-1'' \<lparr>vx = 900, vy = 100\<rparr>)"
    unfolding draggedFurther_def
    by (simp add: handleDragGesture_continuing [OF c' w'] delta_def) (simp add: r dragStarted_eq)
  have p: "map_option w_position (getWindow (snd draggedRight) ''window-1'')
      = Some \<lparr>vx = 800, vy = 100\<rparr>"
    by (simp add: r getWindow_updateWindowPosition getWindow_desk constrain_display)
  have p': "map_option w_position (getWindow (snd draggedFurther) ''window-1'')
      = Some \<lparr>vx = 800, vy = 100\<rparr>"
    by (simp add: f getWindow_updateWindowPosition constrain_display)
       (simp add: r getWindow_updateWindowPosition getWindow_desk)
  have o: "offset (dragState (fst draggedFurther)) = offset (dragState (fst dragStarted))"
    by (simp add: f r)
  show ?thesis using c c' p p' o by (simp add: delta_def)
qed

text \<open>
  C6, as the code has it. There is one drag state, so at most one session. A drag event whose
  identifier differs from the active session's replaces the session when the store has a focused
  window that it can find: the new session carries the event's identifier, that window and an
  anchor offset computed from that window's position; the inactivity timer is restarted and the
  store is unchanged.
\<close>

theorem new_identity_supersedes_when_focused:
  assumes "isDragging (dragState wm)" and "gestureSequenceId (dragState wm) \<noteq> ev_id event"
    and "focusedWindowId store = Some wid" and "wid \<noteq> []" and "getWindow store wid = Some w"
  shows "handleDragGesture wm store vp now event =
           (wm\<lparr>dragTimeout := Some (now + 200),
               dragState := \<lparr>isDragging = True, windowId = Some wid,
                             startPosition = screenPosition vp event,
                             offset = delta (screenPosition vp event) (w_position w),
                             gestureSequenceId = ev_id event\<rparr>\<rparr>, store)"
proof -
  have n: "\<not> continuing wm event" using assms(2) by (simp add: continuing_def)
  show ?thesis
    using n assms(3,4,5) by (rule handleDragGesture_new)
qed

theorem new_identity_supersedes_when_focused_witness:
  "isDragging (dragState (fst dragStarted))
   \<and> gestureSequenceId (dragState (fst dragStarted)) = Some ''a1b2c3d4e''
   \<and> gestureSequenceId (dragState (fst dragStarted)) \<noteq> ev_id (dragEvent ''f5g6h7i8j'' (3/10) (1/4))
   \<and> focusedWindowId (snd dragStarted) = Some ''window-1''
   \<and> map_option w_position (getWindow (snd dragStarted) ''window-1'') = Some \<lparr>vx = 100, vy = 100\<rparr>
   \<and> dragState (fst refocusedDrag) =
        \<lparr>isDragging = True, windowId = Some ''window-1'', startPosition = \<lparr>vx = 300, vy = 200\<rparr>,
         offset = \<lparr>vx = 200, vy = 100\<rparr>, gestureSequenceId = Some ''f5g6h7i8j''\<rparr>
   \<and> dragTimeout (fst refocusedDrag) = Some 1240
   \<and> snd refocusedDrag = snd dragStarted"
proof -
  have a: "isDragging (dragState (fst dragStarted))"
    and b: "gestureSequenceId (dragState (fst dragStarted)) \<noteq> ev_id (dragEvent ''f5g6h7i8j'' (3/10) (1/4))"
    and i: "gestureSequenceId (dragState (fst dragStarted)) = Some ''a1b2c3d4e''"
    by (simp_all add: dragStarted_eq)
  have f: "focusedWindowId (snd dragStarted) = Some ''window-1''"
    and g: "getWindow (snd dragStarted) ''window-1'' = Some (hd (windows desk))"
    by (simp_all add: dragStarted_eq getWindow_desk)
  have n: "''window-1'' \<noteq> []" by simp
  have 1: "refocusedDrag =
      ((fst dragStarted)\<lparr>dragTimeout := Some 1240,
          dragState := \<lparr>isDragging = True, windowId = Some ''window-1'',
                        startPosition = \<lparr>vx = 300, vy = 200\<rparr>,
                        offset = \<lparr>vx = 200, vy = 100\<rparr>,
                        gestureSequenceId = Some ''f5g6h7i8j''\<rparr>\<rparr>, snd dragStarted)"
    unfolding refocusedDrag_def
    by (simp add: new_identity_supersedes_when_focused [OF a b f n g] getWindow_desk delta_def)
  show ?thesis
    using a b i f g by (simp add: 1 getWindow_desk)
qed

text \<open>
  The claim as it is written fails when the focus has been cleared: the session opened by the
  first gesture is still the active one after an event of another gesture has been processed.
\<close>

theorem unfocused_drag_keeps_old_session_counterexample:
  "isDragging (dragState (fst dragStarted))
   \<and> gestureSequenceId (dragState (fst dragStarted)) = Some ''a1b2c3d4e''
   \<and> ev_id (dragEvent ''f5g6h7i8j'' (3/10) (1/4)) = Some ''f5g6h7i8j''
   \<and> isDragging (dragState (fst unfocusedDrag))
   \<and> gestureSequenceId (dragState (fst unfocusedDrag)) = Some ''a1b2c3d4e''
   \<and> gestureSequenceId (dragState (fst unfocusedDrag)) \<noteq> ev_id (dragEvent ''f5g6h7i8j'' (3/10) (1/4))
   \<and> offset (dragState (fst unfocusedDrag)) = offset (dragState (fst dragStarted))"
proof -
  have n: "\<not> continuing (fst dragStarted) (dragEvent ''f5g6h7i8j'' (3/10) (1/4))"
    by (simp add: continuing_def dragStarted_eq)
  have u: "unfocusedDrag = ((fst dragStarted)\<lparr>dragTimeout := Some 1240\<rparr>,
      setFocusedWindow (snd dragStarted) None)"
    unfolding unfocusedDrag_def
    by (simp add: handleDragGesture_noop [OF n] truthy_def)
  show ?thesis by (simp add: u) (simp add: dragStarted_eq)
qed


section \<open>The pinch scenario\<close>

lemma detect_pinchShape:
  "pinchShape lms \<Longrightarrow> detectGesture lms s = Some (Detected pinch (9/10) (Some (3/100)))"
  by (auto simp add: pinchShape_def detectGesture_def extendedFingers_def Let_def
      fingerExtensions_expand)

lemma processHandTracking_Cons:
  "fst (processHandTracking ial ((now, rnd, r) # rest)) =
     fst (processHandTracking (fst (processHandGestures ial now rnd r (handedness r))) rest)"
  "snd (processHandTracking ial ((now, rnd, r) # rest)) =
     (case snd (processHandGestures ial now rnd r (handedness r)) of None \<Rightarrow> [] | Some e \<Rightarrow> [e])
     @ snd (processHandTracking (fst (processHandGestures ial now rnd r (handedness r))) rest)"
  by (simp_all add: split_beta Let_def)

lemma classified_pinchShape:
  "pinchShape (landmarks r) \<Longrightarrow> classified ial r k = Some (Detected pinch (9/10) (Some (3/100)))"
  by (simp add: classified_def detect_pinchShape)

lemma pinchShape_long: "pinchShape lms \<Longrightarrow> 21 \<le> length lms"
  by (simp add: pinchShape_def)

lemma pinching_first:
  assumes "pinchShape (landmarks r)" and "lastGesture (stateOf ial k) \<noteq> Some pinch"
  shows "pinching (fst (processHandGestures ial t0 rnd0 r k)) k t0 rnd0"
  using assms
  by (simp add: pinching_def stateOf_after pinchShape_long classified_pinchShape Let_def
      updateIdentity_def updateMotion_fields)

lemma pinching_next:
  assumes "pinchShape (landmarks r)" and "pinching ial k t0 rnd0"
  shows "pinching (fst (processHandGestures ial now rnd r k)) k t0 rnd0"
  using assms
  by (simp add: pinching_def stateOf_after pinchShape_long classified_pinchShape Let_def
      updateIdentity_def updateMotion_fields)

lemma pinching_frames:
  assumes "pinching ial k t0 rnd0"
    and "\<forall>(now, rnd, r) \<in> set frames. pinchShape (landmarks r) \<and> handedness r = k"
  shows "pinching (fst (processHandTracking ial frames)) k t0 rnd0"
  using assms
proof (induction frames arbitrary: ial)
  case Nil
  then show ?case by simp
next
  case (Cons f frames)
  obtain now rnd r where f: "f = (now, rnd, r)" by (cases f)
  have "pinching (fst (processHandGestures ial now rnd r k)) k t0 rnd0"
    using Cons.prems f by (auto intro: pinching_next)
  then have "pinching (fst (processHandTracking (fst (processHandGestures ial now rnd r k)) frames))
      k t0 rnd0"
    using Cons.prems by (intro Cons.IH) auto
  moreover have "handedness r = k" using Cons.prems f by auto
  ultimately show ?case
    by (simp only: f processHandTracking_Cons)
qed

lemma config_frames:
  "confidenceThreshold (fst (processHandTracking ial frames)) = confidenceThreshold ial"
  "gestureHoldTime (fst (processHandTracking ial frames)) = gestureHoldTime ial"
  by (induction frames arbitrary: ial) (auto simp add: config_after split_beta Let_def)

lemma pinching_event:
  assumes "pinchShape (landmarks r)" and "pinching ial k t0 rnd0"
    and "confidenceThreshold ial = 8/10" and "gestureHoldTime ial = 150"
  shows "snd (processHandGestures ial now rnd r k) =
     (if now - t0 \<ge> 150
      then Some \<lparr>ev_id = eventId (Some rnd0), ev_type = pinch, ev_confidence = 9/10,
                 normalizedPosition = position (stateOf (fst (processHandGestures ial now rnd r k)) k),
                 ev_handedness = handedness r, ev_timestamp = timestamp r,
                 ev_data = Some (3/100)\<rparr>
      else None)"
proof -
  have p: "pinching (fst (processHandGestures ial now rnd r k)) k t0 rnd0"
    using assms(1,2) by (rule pinching_next)
  show ?thesis
    using p assms(3,4)
    by (simp add: event_after pinchShape_long [OF assms(1)] classified_pinchShape [OF assms(1)]
        gestureEventOf_def pinching_def)
qed

lemma dispatch_pinch:
  assumes "ev_type ev = pinch" and "ev_confidence ev = 9/10"
    and "tm - jsOr (lastTimes pinch) 0 \<ge> 200"
  shows "snd (processGesture ((newGestureMapper None)\<lparr>lastActionTimes := lastTimes\<rparr>) tm ev)
     = Some (''drag'', ev)"
proof -
  let ?gm = "(newGestureMapper None)\<lparr>lastActionTimes := lastTimes\<rparr>"
  have pol: "map snd (policies ?gm) = [ConfidencePolicy, RateLimitPolicy, ContextPolicy]"
    by (simp add: newGestureMapper_fields)
  have mapped: "mappings ?gm (ev_type ev) = Some (mkMapping pinch ''drag'' (Some True) None (Some 80))"
    by (simp add: assms(1) newGestureMapper_fields)
  show ?thesis
    using assms
    by (simp add: processGesture_default [OF pol mapped] confidencePolicy_iff
        newGestureMapper_fields mkMapping_def rateLimitPolicy_def Let_def)
qed

lemma pinchShape_pinchHand: "pinchShape pinchHand"
  by (simp add: pinchShape_def tipDistance_pinchHand extendedFingers_def fingerExtensions_expand)
     (simp add: pinchHand_def handAt_def)

lemma newGestureMapper_times:
  "(newGestureMapper cfg)\<lparr>lastActionTimes := Map.empty\<rparr> = newGestureMapper cfg"
  by (simp add: newGestureMapper_def setupDefaultPolicies_def)

text \<open>
  C2, as the code has it. Under the default configuration (threshold 0.8, hold time 150 ms), a
  hand starts to pinch at \<open>start\<close> and keeps pinching through any number of frames. A further
  pinching frame at \<open>now\<close> emits nothing while \<open>now - start < 150\<close>, so nothing at 80 ms: the
  classifier waits for its own hold time and the mapping's \<^verbatim>\<open>holdMillis\<close> of 80 is not
  consulted. From 150 ms on, the frame emits a pinch event of confidence 0.9 under the
  identifier drawn at \<open>start\<close>, and the default mapper dispatches the drag action for it whenever
  at least 200 ms have passed since the last pinch it accepted.
\<close>

theorem pinch_emitted_after_classifier_hold_time:
  assumes "confidenceThreshold ial = 8/10" and "gestureHoldTime ial = 150"
    and "lastGesture (stateOf ial k) \<noteq> Some pinch"
    and "pinchShape (landmarks rfirst)" and "handedness rfirst = k"
    and "\<forall>(now, rnd, r) \<in> set frames. pinchShape (landmarks r) \<and> handedness r = k"
    and "pinchShape (landmarks r)"
  shows "(now - start < 150 \<longrightarrow>
            snd (processHandGestures (fst (processHandTracking ial ((start, ident, rfirst) # frames)))
                   now rnd r k) = None)
       \<and> (now - start \<ge> 150 \<longrightarrow>
            (\<exists>ev. snd (processHandGestures (fst (processHandTracking ial ((start, ident, rfirst) # frames)))
                         now rnd r k) = Some ev
                  \<and> ev_type ev = pinch \<and> ev_confidence ev = 9/10 \<and> ev_id ev = eventId (Some ident)
                  \<and> (\<forall>tm lastTimes. tm - jsOr (lastTimes pinch) 0 \<ge> 200 \<longrightarrow>
                        snd (processGesture ((newGestureMapper None)\<lparr>lastActionTimes := lastTimes\<rparr>)
                               tm ev) = Some (''drag'', ev))))"
proof -
  let ?ial = "fst (processHandTracking ial ((start, ident, rfirst) # frames))"
  have "pinching (fst (processHandGestures ial start ident rfirst k)) k start ident"
    using assms(4,3) by (rule pinching_first)
  then have "pinching (fst (processHandTracking (fst (processHandGestures ial start ident rfirst k)) frames))
      k start ident"
    using assms(6) by (rule pinching_frames)
  then have p: "pinching ?ial k start ident"
    using assms(5) by (simp only: processHandTracking_Cons)
  have c: "confidenceThreshold ?ial = 8/10" "gestureHoldTime ?ial = 150"
    using assms(1,2) by (simp_all only: config_frames)
  note ev = pinching_event [OF assms(7) p c, of now rnd]
  show ?thesis
  proof (cases "now - start \<ge> 150")
    case False
    then show ?thesis using ev by simp
  next
    case True
    then show ?thesis using ev by (simp add: dispatch_pinch)
  qed
qed

theorem pinch_emitted_after_classifier_hold_time_witness:
  "confidenceThreshold newInputAbstractionLayer = 8/10
   \<and> gestureHoldTime newInputAbstractionLayer = 150
   \<and> lastGesture (stateOf newInputAbstractionLayer Right) \<noteq> Some pinch
   \<and> pinchShape (landmarks (observation pinchHand 1000))
   \<and> pinchShape (landmarks (observation pinchHand 1120))
   \<and> snd (processHandGestures (fst (processHandTracking newInputAbstractionLayer pinchFrames))
        1120 ''p3q4r5s6t'' (observation pinchHand 1120) Right) = None
   \<and> (\<exists>ev. snd (processHandGestures (fst (processHandTracking newInputAbstractionLayer pinchFrames))
              1160 ''p3q4r5s6t'' (observation pinchHand 1160) Right) = Some ev
           \<and> ev_type ev = pinch \<and> ev_confidence ev = 9/10 \<and> ev_id ev = Some ''a1b2c3d4e''
           \<and> snd (processGesture (newGestureMapper None) 1160 ev) = Some (''drag'', ev))"
proof -
  have s: "pinchShape (landmarks (observation pinchHand t))" for t
    by (simp add: pinchShape_pinchHand)
  have a: "confidenceThreshold newInputAbstractionLayer = 8/10"
    and b: "gestureHoldTime newInputAbstractionLayer = 150"
    and c: "lastGesture (stateOf newInputAbstractionLayer Right) \<noteq> Some pinch"
    by (simp_all add: initialGestureState_def)
  have h: "handedness (observation pinchHand 1000) = Right" by simp
  have f: "\<forall>(now, rnd, r) \<in> set [(1040, ''f5g6h7i8j'', observation pinchHand 1040),
      (1080, ''k9l0m1n2o'', observation pinchHand 1080)].
      pinchShape (landmarks r) \<and> handedness r = Right"
    by (simp add: pinchShape_pinchHand)
  note t = pinch_emitted_after_classifier_hold_time
    [OF a b c s h f s, where start = 1000 and ident = "''a1b2c3d4e''" and rnd = "''p3q4r5s6t''",
     folded pinchFrames_def]
  have early: "snd (processHandGestures (fst (processHandTracking newInputAbstractionLayer
      pinchFrames)) 1120 ''p3q4r5s6t'' (observation pinchHand 1120) Right) = None"
    using t [of 1120 1120] by simp
  obtain ev where ev: "snd (processHandGestures (fst (processHandTracking
      newInputAbstractionLayer pinchFrames)) 1160 ''p3q4r5s6t'' (observation pinchHand 1160) Right)
      = Some ev" "ev_type ev = pinch" "ev_confidence ev = 9/10"
      "ev_id ev = eventId (Some ''a1b2c3d4e'')"
      "\<forall>tm lastTimes. tm - jsOr (lastTimes pinch) 0 \<ge> 200 \<longrightarrow>
         snd (processGesture ((newGestureMapper None)\<lparr>lastActionTimes := lastTimes\<rparr>) tm ev)
           = Some (''drag'', ev)"
    using t [of 1160 1160] by auto
  have "snd (processGesture (newGestureMapper None) 1160 ev) = Some (''drag'', ev)"
    using ev(5) [rule_format, of 1160 Map.empty] by (simp add: newGestureMapper_times jsOr_def)
  with ev(1-4) have "\<exists>ev. snd (processHandGestures (fst (processHandTracking
      newInputAbstractionLayer pinchFrames)) 1160 ''p3q4r5s6t'' (observation pinchHand 1160) Right)
      = Some ev \<and> ev_type ev = pinch \<and> ev_confidence ev = 9/10 \<and> ev_id ev = Some ''a1b2c3d4e''
      \<and> snd (processGesture (newGestureMapper None) 1160 ev) = Some (''drag'', ev)"
    by (simp add: eventId_def)
  with a b c s early show ?thesis by blast
qed

text \<open>
  The claim as it is written fails for the pinching hand seen at 0, 40 and 80 ms by a new layer:
  no event is emitted, so nothing reaches the mapper.
\<close>

theorem pinch_not_emitted_at_80ms_counterexample:
  "pinchShape pinchHand
   \<and> confidenceThreshold newInputAbstractionLayer = 8/10
   \<and> gestureHoldTime newInputAbstractionLayer = 150
   \<and> snd (processHandTracking newInputAbstractionLayer pinchFrames) = []"
proof -
  have s: "pinchShape (landmarks (observation pinchHand t))" for t
    by (simp add: pinchShape_pinchHand)
  have a: "pinching (fst (processHandGestures newInputAbstractionLayer 1000 ''a1b2c3d4e''
      (observation pinchHand 1000) Right)) Right 1000 ''a1b2c3d4e''"
    by (rule pinching_first [OF s]) (simp add: initialGestureState_def)
  have b: "pinching (fst (processHandGestures (fst (processHandGestures newInputAbstractionLayer
      1000 ''a1b2c3d4e'' (observation pinchHand 1000) Right)) 1040 ''f5g6h7i8j''
      (observation pinchHand 1040) Right)) Right 1000 ''a1b2c3d4e''"
    by (rule pinching_next [OF s a])
  have e1: "snd (processHandGestures newInputAbstractionLayer 1000 ''a1b2c3d4e''
      (observation pinchHand 1000) Right) = None"
    using a by (simp add: event_after pinchShape_long [OF s] classified_pinchShape [OF s]
        gestureEventOf_def pinching_def)
  have e2: "snd (processHandGestures (fst (processHandGestures newInputAbstractionLayer 1000
      ''a1b2c3d4e'' (observation pinchHand 1000) Right)) 1040 ''f5g6h7i8j''
      (observation pinchHand 1040) Right) = None"
    by (simp add: pinching_event [OF s a] config_after)
  have e3: "snd (processHandGestures (fst (processHandGestures (fst (processHandGestures
      newInputAbstractionLayer 1000 ''a1b2c3d4e'' (observation pinchHand 1000) Right)) 1040
      ''f5g6h7i8j'' (observation pinchHand 1040) Right)) 1080 ''k9l0m1n2o''
      (observation pinchHand 1080) Right) = None"
    by (simp add: pinching_event [OF s b] config_after)
  have "snd (processHandTracking newInputAbstractionLayer pinchFrames) = []"
    using e1 e2 e3
    by (simp add: pinchFrames_def processHandTracking_Cons del: processHandTracking.simps(2))
  then show ?thesis by (simp add: pinchShape_pinchHand)
qed


end
